theory Spec2Isabelle
  imports Complex_Main
begin

text \<open>
  A model of the audio pipeline of AnyAudio: \<^verbatim>\<open>AudioConverter\<close> (which decides whether a
  file needs conversion and converts \<^verbatim>\<open>.opus\<close> files to \<^verbatim>\<open>.mp4\<close>) and \<^verbatim>\<open>AudioService\<close>
  (\<^verbatim>\<open>transcribeFile\<close>, \<^verbatim>\<open>translateFile\<close>, \<^verbatim>\<open>processAudioDirectory\<close>, \<^verbatim>\<open>saveTranscription\<close>).
  Every operation takes the state and returns the new one with its outcome; an outcome
  \<open>Inl msg\<close> is a thrown \<^verbatim>\<open>Error\<close> with the message \<open>msg\<close>. Logging is left out.
\<close>

section \<open>Strings and the POSIX path functions of the platform\<close>

text \<open>
  The service is JavaScript on Node. A JavaScript string is modelled as a \<^typ>\<open>string\<close>,
  its UTF-8 bytes. The functions of Node's \<^verbatim>\<open>path\<close> module only look at the two ASCII
  characters \<^verbatim>\<open>/\<close> and \<^verbatim>\<open>.\<close>, and the comparisons made after \<^verbatim>\<open>toLowerCase()\<close> are against
  ASCII literals that contain neither \<^verbatim>\<open>i\<close> nor \<^verbatim>\<open>k\<close> (the only ASCII letters a non-ASCII
  character lowers to), so lowering the letters A to Z is all that matters.
\<close>

definition toLowerChar :: "char \<Rightarrow> char" where
  "toLowerChar c =
     (case map_of (zip ''ABCDEFGHIJKLMNOPQRSTUVWXYZ'' ''abcdefghijklmnopqrstuvwxyz'') c of
        Some l \<Rightarrow> l
      | None \<Rightarrow> c)"

definition toLowerCase :: "string \<Rightarrow> string" where
  "toLowerCase s = map toLowerChar s"

definition isSlash :: "char \<Rightarrow> bool" where
  "isSlash c = (c = CHR ''/'')"

definition isDot :: "char \<Rightarrow> bool" where
  "isDot c = (c = CHR ''.'')"

text \<open>
  \<^verbatim>\<open>lastComponent\<close> is what \<^verbatim>\<open>path.basename(p)\<close> returns: trailing separators are
  ignored, and the result is what follows the last remaining separator.
\<close>

definition lastComponent :: "string \<Rightarrow> string" where
  "lastComponent p = rev (takeWhile (\<lambda>c. \<not> isSlash c) (dropWhile isSlash (rev p)))"

definition path_basename :: "string \<Rightarrow> string" where
  "path_basename p = lastComponent p"

text \<open>
  \<^verbatim>\<open>path.extname(p)\<close>: from the last dot of the last component to its end; empty when
  the component has no dot, when its only dot is its first character, and when it is
  \<^verbatim>\<open>..\<close>.
\<close>

definition path_extname :: "string \<Rightarrow> string" where
  "path_extname p =
     (let c = lastComponent p;
          tail = takeWhile (\<lambda>x. \<not> isDot x) (rev c);
          pre = drop (Suc (length tail)) (rev c)
      in if CHR ''.'' \<notin> set c then []
         else if pre = [] then []
         else if c = ''..'' then []
         else CHR ''.'' # rev tail)"

text \<open>
  \<^verbatim>\<open>path.basename(p, suffix)\<close>: the last component, without \<^verbatim>\<open>suffix\<close> when the component
  ends with it (compared character by character, so case matters) and is longer than
  it. The cases where Node's scanning loop runs out of component before the suffix is
  matched are not reached by this program: it only strips \<^verbatim>\<open>.opus\<close> from a path whose
  extension has five characters.
\<close>

definition endsWith :: "string \<Rightarrow> string \<Rightarrow> bool" where
  "endsWith s suffix = (length suffix \<le> length s \<and> drop (length s - length suffix) s = suffix)"

definition path_basename_ext :: "string \<Rightarrow> string \<Rightarrow> string" where
  "path_basename_ext p suffix =
     (let c = lastComponent p
      in if suffix = [] \<or> length p < length suffix then c
         else if suffix = p then []
         else if endsWith c suffix \<and> length suffix < length c
              then take (length c - length suffix) c
              else c)"

text \<open>
  \<^verbatim>\<open>path.dirname(p)\<close>: the scan runs from the end down to index 1, skips trailing
  separators and the last component, and cuts at the separator before it.
  \<open>beforeLastComponent\<close> is what such a scan leaves, with that separator.
\<close>

definition beforeLastComponent :: "string \<Rightarrow> string" where
  "beforeLastComponent p = rev (dropWhile (\<lambda>c. \<not> isSlash c) (dropWhile isSlash (rev p)))"

definition path_dirname :: "string \<Rightarrow> string" where
  "path_dirname p =
     (if p = [] then ''.''
      else
        let hasRoot = isSlash (hd p);
            rest = beforeLastComponent (tl p)
        in if rest = [] then (if hasRoot then ''/'' else ''.'')
           else if hasRoot \<and> length rest = 1 then ''//''
           else hd p # butlast rest)"

text \<open>
  \<^verbatim>\<open>path.normalize\<close> and \<^verbatim>\<open>path.join\<close>. The path is cut into segments at the separators;
  empty segments and \<^verbatim>\<open>.\<close> are dropped, \<^verbatim>\<open>..\<close> removes the segment before it unless there
  is none or it is \<^verbatim>\<open>..\<close> itself, in which case it is kept for a relative path and
  dropped for an absolute one. The stack of segments is kept reversed.
\<close>

fun splitSegments :: "string \<Rightarrow> string list" where
  "splitSegments [] = [[]]"
| "splitSegments (c # cs) =
     (if isSlash c then [] # splitSegments cs
      else (case splitSegments cs of
              [] \<Rightarrow> [[c]]
            | s # ss \<Rightarrow> (c # s) # ss))"

fun joinSegments :: "string list \<Rightarrow> string" where
  "joinSegments [] = []"
| "joinSegments [s] = s"
| "joinSegments (s # t # ss) = s @ ''/'' @ joinSegments (t # ss)"

definition normalizeStep :: "bool \<Rightarrow> string list \<Rightarrow> string \<Rightarrow> string list" where
  "normalizeStep allowAboveRoot res seg =
     (if seg = [] \<or> seg = ''.'' then res
      else if seg = ''..'' then
        (if res \<noteq> [] \<and> hd res \<noteq> ''..'' then tl res
         else if allowAboveRoot then ''..'' # res
         else res)
      else seg # res)"

definition normalizeString :: "string \<Rightarrow> bool \<Rightarrow> string" where
  "normalizeString p allowAboveRoot =
     joinSegments (rev (foldl (normalizeStep allowAboveRoot) [] (splitSegments p)))"

definition path_normalize :: "string \<Rightarrow> string" where
  "path_normalize p =
     (if p = [] then ''.''
      else
        let isAbsolute = isSlash (hd p);
            trailingSeparator = isSlash (last p);
            q = normalizeString p (\<not> isAbsolute)
        in if q = [] then (if isAbsolute then ''/'' else if trailingSeparator then ''./'' else ''.'')
           else (if isAbsolute then ''/'' else []) @ q @ (if trailingSeparator then ''/'' else []))"

definition path_join :: "string list \<Rightarrow> string" where
  "path_join args =
     (let parts = filter (\<lambda>a. a \<noteq> []) args
      in if parts = [] then ''.'' else path_normalize (joinSegments parts))"

text \<open>\<^verbatim>\<open>path.parse(p).name\<close>: the last component without its extension.\<close>

definition path_parse_name :: "string \<Rightarrow> string" where
  "path_parse_name p =
     (let c = lastComponent p in take (length c - length (path_extname p)) c)"

section \<open>JavaScript values\<close>

text \<open>
  What the remote service returns is a JavaScript value. A property that an object does
  not have reads as \<^verbatim>\<open>undefined\<close>; reading a property of \<^verbatim>\<open>undefined\<close> or \<^verbatim>\<open>null\<close> throws a
  TypeError, whose message is the one of V8. Numbers are rationals (no NaN, no
  infinities: no property below depends on a number).
\<close>

datatype jsval =
    JUndefined
  | JNull
  | JBool bool
  | JNum rat
  | JStr string
  | JArr "jsval list"
  | JObj "(string \<times> jsval) list"

fun typeof_string :: "jsval \<Rightarrow> bool" where
  "typeof_string (JStr s) = True"
| "typeof_string v = False"

fun truthy :: "jsval \<Rightarrow> bool" where
  "truthy JUndefined = False"
| "truthy JNull = False"
| "truthy (JBool b) = b"
| "truthy (JNum n) = (n \<noteq> 0)"
| "truthy (JStr s) = (s \<noteq> [])"
| "truthy (JArr vs) = True"
| "truthy (JObj kvs) = True"

definition quote :: string where
  "quote = [CHR 0x27]"

text \<open>\<^verbatim>\<open>v.text\<close>\<close>

fun get_text :: "jsval \<Rightarrow> string + jsval" where
  "get_text JUndefined =
     Inl (''Cannot read properties of undefined (reading '' @ quote @ ''text'' @ quote @ '')'')"
| "get_text JNull =
     Inl (''Cannot read properties of null (reading '' @ quote @ ''text'' @ quote @ '')'')"
| "get_text (JObj kvs) = Inr (case map_of kvs ''text'' of None \<Rightarrow> JUndefined | Some v \<Rightarrow> v)"
| "get_text v = Inr JUndefined"

text \<open>Truthiness of an optional string (\<^verbatim>\<open>undefined\<close> or a string), as in \<^verbatim>\<open>if (language)\<close>.\<close>

fun truthy_string :: "string option \<Rightarrow> bool" where
  "truthy_string None = False"
| "truthy_string (Some s) = (s \<noteq> [])"

text \<open>\<^verbatim>\<open>a || b\<close> for an optional string \<^verbatim>\<open>a\<close>.\<close>

fun or_string :: "string option \<Rightarrow> string \<Rightarrow> string" where
  "or_string None d = d"
| "or_string (Some a) d = (if a = [] then d else a)"

definition newline :: string where
  "newline = [CHR 0x0A]"

definition a_acute :: string where
  "a_acute = [CHR 0xC3, CHR 0xA1]"

definition o_acute :: string where
  "o_acute = [CHR 0xC3, CHR 0xB3]"

section \<open>Data model\<close>

text \<open>The result object of \<^verbatim>\<open>AudioConverter.processAudioFile\<close>; an absent property is \<open>None\<close>.\<close>

record conversion_result =
  success :: bool
  originalPath :: string
  processedPath :: "string option"
  wasConverted :: bool
  originalFormat :: "string option"
  targetFormat :: "string option"
  error :: "string option"

text \<open>The options object of \<^verbatim>\<open>transcribeFile\<close> and \<^verbatim>\<open>translateFile\<close>.\<close>

record options =
  language :: "string option"
  prompt :: "string option"
  responseFormat :: "string option"
  timestampGranularities :: "string list option"
  temperature :: "rat option"

text \<open>
  The parameter object sent to the remote service. \<^verbatim>\<open>file_stream\<close> (the property \<^verbatim>\<open>file\<close>) is the path the read stream
  is opened on; a property that was not set is \<open>None\<close>.
\<close>

record request_params =
  file_stream :: string
  model :: string
  response_format :: string
  temperature :: rat
  language :: "string option"
  prompt :: "string option"
  timestamp_granularities :: "string list option"

record conversion_info =
  originalFormat :: "string option"
  targetFormat :: "string option"

record metadata =
  fileName :: string
  originalFilePath :: string
  processedFilePath :: string
  wasConverted :: bool
  conversionInfo :: "conversion_info option"
  model :: string
  language :: "string option"
  targetLanguage :: "string option"
  timestamp :: string

text \<open>
  The result object of \<^verbatim>\<open>transcribeFile\<close> (which sets \<^verbatim>\<open>transcription\<close>) and of
  \<^verbatim>\<open>translateFile\<close> (which sets \<^verbatim>\<open>translation\<close>); the property that is not set reads as
  \<^verbatim>\<open>undefined\<close>.
\<close>

record transcription_result =
  success :: bool
  transcription :: jsval
  translation :: jsval
  metadata :: metadata

record failure_metadata =
  fileName :: string
  filePath :: string
  timestamp :: string

record failure_record =
  success :: bool
  error :: string
  metadata :: failure_metadata

datatype report_entry =
    ResultEntry transcription_result
  | FailureEntry failure_record

fun entry_success :: "report_entry \<Rightarrow> bool" where
  "entry_success (ResultEntry r) = transcription_result.success r"
| "entry_success (FailureEntry f) = failure_record.success f"

section \<open>State and external collaborators\<close>

text \<open>
  The state that the calls thread: the \<^verbatim>\<open>model\<close> field of the \<^verbatim>\<open>AudioService\<close> instance,
  the paths that exist in the file system, and the number of times the clock was read.
\<close>

record state =
  this_model :: string
  files :: "string set"
  clock :: nat

text \<open>
  The command that \<^verbatim>\<open>convertOpusToMp4\<close> builds: \<open>ffmpeg_input\<close> is the argument of
  \<^verbatim>\<open>ffmpeg(...)\<close> and \<open>save\<close> the argument of \<^verbatim>\<open>.save(...)\<close>.
\<close>

record ffmpeg_command =
  ffmpeg_input :: string
  audioCodec :: string
  audioFrequency :: nat
  audioChannels :: nat
  audioBitrate :: string
  videoCodec :: string
  videoFilter :: string
  fps :: nat
  format :: string
  save :: string

text \<open>
  The terminal event of the conversion executable: \<^verbatim>\<open>end\<close>, after which the output file
  exists, or \<^verbatim>\<open>error\<close> with its message and whether it left an output file behind. The
  executable reads its input and writes its output; it removes nothing.
\<close>

datatype ffmpeg_event =
    FfmpegEnd
  | FfmpegError string bool

text \<open>
  What the program does not decide: the conversion executable, the remote service, the
  failures of the file system, the clock and the two string conversions of the
  language. Each is a function of the current state and of its arguments; the file
  system operations return the message of the error they fail with.
\<close>

record env =
  ffmpeg :: "state \<Rightarrow> ffmpeg_command \<Rightarrow> ffmpeg_event"
  transcriptions_create :: "state \<Rightarrow> request_params \<Rightarrow> string + jsval"
  translations_create :: "state \<Rightarrow> request_params \<Rightarrow> string + jsval"
  fs_mkdir :: "state \<Rightarrow> string \<Rightarrow> string option"
  fs_writeFile :: "state \<Rightarrow> string \<Rightarrow> string \<Rightarrow> string option"
  fs_readdir :: "state \<Rightarrow> string \<Rightarrow> string + string list"
  toISOString :: "nat \<Rightarrow> string"
  JSON_stringify :: "jsval \<Rightarrow> string"
  String_of :: "jsval \<Rightarrow> string"

text \<open>\<^verbatim>\<open>await fs.access(p)\<close>: succeeds when the path exists.\<close>

definition fs_access :: "state \<Rightarrow> string \<Rightarrow> string option" where
  "fs_access s p =
     (if p \<in> files s then None
      else Some (''ENOENT: no such file or directory, access '' @ quote @ p @ quote))"

text \<open>\<^verbatim>\<open>await fs.unlink(p)\<close>, which only the HTTP routes call, on the uploaded file.\<close>

definition fs_unlink :: "state \<Rightarrow> string \<Rightarrow> string option \<times> state" where
  "fs_unlink s p =
     (if p \<in> files s then (None, s\<lparr>files := files s - {p}\<rparr>)
      else (Some (''ENOENT: no such file or directory, unlink '' @ quote @ p @ quote), s))"

text \<open>\<^verbatim>\<open>new Date().toISOString()\<close>\<close>

definition new_Date :: "env \<Rightarrow> state \<Rightarrow> string \<times> state" where
  "new_Date e s = (toISOString e (clock s), s\<lparr>clock := Suc (clock s)\<rparr>)"

section \<open>AudioConverter\<close>

definition needsConversion :: "string \<Rightarrow> bool" where
  "needsConversion file_path =
     (let extension = toLowerCase (path_extname file_path) in extension = ''.opus'')"

text \<open>The output path that \<^verbatim>\<open>convertOpusToMp4\<close> derives from its input path.\<close>

definition convertOpusToMp4_outputPath :: "string \<Rightarrow> string" where
  "convertOpusToMp4_outputPath inputPath =
     (let directory = path_dirname inputPath;
          fileName = path_basename_ext inputPath ''.opus''
      in path_join [directory, fileName @ ''.mp4''])"

text \<open>The fixed profile of the conversion (the constructor sets 16000 Hz, one channel).\<close>

definition ffmpeg_job :: "string \<Rightarrow> string \<Rightarrow> ffmpeg_command" where
  "ffmpeg_job inputPath outputPath =
     \<lparr> ffmpeg_input = inputPath,
       audioCodec = ''aac'',
       audioFrequency = 16000,
       audioChannels = 1,
       audioBitrate = ''128k'',
       videoCodec = ''libx264'',
       videoFilter = ''color=black:size=320x240:duration=0.1'',
       fps = 1,
       format = ''mp4'',
       save = outputPath \<rparr>"

text \<open>
  \<^verbatim>\<open>convertOpusToMp4\<close>. \<open>Inl\<close> is the message of the error it throws. Only the failure of
  \<^verbatim>\<open>fs.access\<close> goes through the \<^verbatim>\<open>catch\<close> and gets its prefix: the promise of the
  conversion is returned without \<^verbatim>\<open>await\<close>, so its rejection leaves the function as it is.
\<close>

definition convertOpusToMp4 :: "env \<Rightarrow> state \<Rightarrow> string \<Rightarrow> (string + string) \<times> state" where
  "convertOpusToMp4 e s inputPath =
     (case fs_access s inputPath of
        Some msg \<Rightarrow> (Inl (''Error al convertir archivo OPUS: '' @ msg), s)
      | None \<Rightarrow>
          let outputPath = convertOpusToMp4_outputPath inputPath
          in (case ffmpeg e s (ffmpeg_job inputPath outputPath) of
                FfmpegEnd \<Rightarrow> (Inr outputPath, s\<lparr>files := insert outputPath (files s)\<rparr>)
              | FfmpegError msg left \<Rightarrow>
                  (Inl (''Error convirtiendo '' @ inputPath @ '': '' @ msg),
                   if left then s\<lparr>files := insert outputPath (files s)\<rparr> else s)))"

text \<open>The \<^verbatim>\<open>try\<close> block of \<^verbatim>\<open>processAudioFile\<close>; \<open>Inl\<close> is the message of a thrown error.\<close>

definition processAudioFile_try ::
  "env \<Rightarrow> state \<Rightarrow> string \<Rightarrow> (string + conversion_result) \<times> state" where
  "processAudioFile_try e s file_path =
     (if needsConversion file_path then
        (case convertOpusToMp4 e s file_path of
           (Inl msg, s') \<Rightarrow> (Inl msg, s')
         | (Inr convertedPath, s') \<Rightarrow>
             (Inr \<lparr> conversion_result.success = True,
                    originalPath = file_path,
                    processedPath = Some convertedPath,
                    wasConverted = True,
                    originalFormat = Some ''opus'',
                    targetFormat = Some ''mp4'',
                    error = None \<rparr>, s'))
      else
        (Inr \<lparr> conversion_result.success = True,
               originalPath = file_path,
               processedPath = Some file_path,
               wasConverted = False,
               originalFormat = None,
               targetFormat = None,
               error = None \<rparr>, s))"

text \<open>
  \<^verbatim>\<open>processAudioFile\<close>: the \<^verbatim>\<open>try\<close> block and its \<^verbatim>\<open>catch\<close>. The type leaves room for a
  thrown error (\<open>Inl\<close>), as for every other operation.
\<close>

definition processAudioFile ::
  "env \<Rightarrow> state \<Rightarrow> string \<Rightarrow> (string + conversion_result) \<times> state" where
  "processAudioFile e s file_path =
     (case processAudioFile_try e s file_path of
        (Inr r, s') \<Rightarrow> (Inr r, s')
      | (Inl msg, s') \<Rightarrow>
          (Inr \<lparr> conversion_result.success = False,
                 originalPath = file_path,
                 processedPath = None,
                 wasConverted = False,
                 originalFormat = None,
                 targetFormat = None,
                 error = Some msg \<rparr>, s'))"

section \<open>AudioService\<close>



text \<open>
  The request of \<^verbatim>\<open>transcribeFile\<close>: the defaults of the destructured options, the
  parameter object, and the three optional properties.
\<close>

definition responseFormat_of :: "options \<Rightarrow> string" where
  "responseFormat_of opts =
     (case options.responseFormat opts of None \<Rightarrow> ''verbose_json'' | Some f \<Rightarrow> f)"

definition timestampGranularities_of :: "options \<Rightarrow> string list" where
  "timestampGranularities_of opts =
     (case options.timestampGranularities opts of None \<Rightarrow> [''segment''] | Some g \<Rightarrow> g)"

definition transcriptionParams :: "string \<Rightarrow> string \<Rightarrow> options \<Rightarrow> request_params" where
  "transcriptionParams configuredModel actualFilePath opts =
     (let language = options.language opts;
          prompt = options.prompt opts;
          responseFormat = responseFormat_of opts;
          timestampGranularities = timestampGranularities_of opts;
          temperature = (case options.temperature opts of None \<Rightarrow> 0 | Some t \<Rightarrow> t);
          p0 = \<lparr> file_stream = actualFilePath,
                 request_params.model = configuredModel,
                 response_format = responseFormat,
                 request_params.temperature = temperature,
                 request_params.language = None,
                 request_params.prompt = None,
                 timestamp_granularities = None \<rparr>;
          p1 = (if truthy_string language then p0\<lparr>request_params.language := language\<rparr> else p0);
          p2 = (if truthy_string prompt then p1\<lparr>request_params.prompt := prompt\<rparr> else p1)
      in if responseFormat = ''verbose_json'' \<and> length timestampGranularities > 0
         then p2\<lparr>timestamp_granularities := Some timestampGranularities\<rparr>
         else p2)"

text \<open>The message of the TypeError of \<^verbatim>\<open>path.basename(undefined)\<close>.\<close>

definition path_argument_error :: string where
  "path_argument_error =
     ''The '' @ [CHR 0x22] @ ''path'' @ [CHR 0x22]
       @ '' argument must be of type string. Received undefined''"

definition conversionInfo_of :: "conversion_result \<Rightarrow> conversion_info option" where
  "conversionInfo_of r =
     (if conversion_result.wasConverted r
      then Some \<lparr> conversion_info.originalFormat = conversion_result.originalFormat r,
                   conversion_info.targetFormat = conversion_result.targetFormat r \<rparr>
      else None)"

text \<open>The \<^verbatim>\<open>try\<close> block of \<^verbatim>\<open>transcribeFile\<close>.\<close>

definition transcribeFile_try ::
  "env \<Rightarrow> state \<Rightarrow> string \<Rightarrow> options \<Rightarrow> (string + transcription_result) \<times> state" where
  "transcribeFile_try e s file_path opts =
     (case fs_access s file_path of
        Some msg \<Rightarrow> (Inl msg, s)
      | None \<Rightarrow>
          (case processAudioFile e s file_path of
             (Inl msg, s1) \<Rightarrow> (Inl msg, s1)
           | (Inr processedResult, s1) \<Rightarrow>
               if \<not> conversion_result.success processedResult then
                 (Inl (''Error procesando archivo: ''
                        @ (case conversion_result.error processedResult of
                             None \<Rightarrow> ''undefined'' | Some m \<Rightarrow> m)), s1)
               else
                 (case processedPath processedResult of
                    None \<Rightarrow> (Inl path_argument_error, s1)
                  | Some actualFilePath \<Rightarrow>
                      let fileName = path_basename actualFilePath;
                          params = transcriptionParams (this_model s1) actualFilePath opts
                      in (case transcriptions_create e s1 params of
                            Inl msg \<Rightarrow> (Inl msg, s1)
                          | Inr payload \<Rightarrow>
                              (case new_Date e s1 of
                                 (now, s2) \<Rightarrow>
                                   (Inr \<lparr> transcription_result.success = True,
                                          transcription = payload,
                                          translation = JUndefined,
                                          transcription_result.metadata =
                                            \<lparr> metadata.fileName = fileName,
                                              originalFilePath = file_path,
                                              processedFilePath = actualFilePath,
                                              metadata.wasConverted =
                                                conversion_result.wasConverted processedResult,
                                              conversionInfo = conversionInfo_of processedResult,
                                              metadata.model = this_model s1,
                                              metadata.language =
                                                Some (or_string (options.language opts)
                                                        ''auto-detect''),
                                              targetLanguage = None,
                                              metadata.timestamp = now \<rparr> \<rparr>, s2))))))"

definition transcribeFile ::
  "env \<Rightarrow> state \<Rightarrow> string \<Rightarrow> options \<Rightarrow> (string + transcription_result) \<times> state" where
  "transcribeFile e s file_path opts =
     (case transcribeFile_try e s file_path opts of
        (Inr r, s') \<Rightarrow> (Inr r, s')
      | (Inl msg, s') \<Rightarrow> (Inl (''Error al transcribir el archivo: '' @ msg), s'))"

text \<open>
  The request of \<^verbatim>\<open>translateFile\<close>: the fast model is replaced in the parameter object,
  the language is always English, no timestamp granularity is sent.
\<close>

definition translationParams :: "string \<Rightarrow> string \<Rightarrow> options \<Rightarrow> request_params" where
  "translationParams configuredModel actualFilePath opts =
     (let prompt = options.prompt opts;
          responseFormat = (case options.responseFormat opts of None \<Rightarrow> ''json'' | Some f \<Rightarrow> f);
          temperature = (case options.temperature opts of None \<Rightarrow> 0 | Some t \<Rightarrow> t);
          p0 = \<lparr> file_stream = actualFilePath,
                 request_params.model =
                   (if configuredModel = ''whisper-large-v3-turbo'' then ''whisper-large-v3''
                    else configuredModel),
                 response_format = responseFormat,
                 request_params.temperature = temperature,
                 request_params.language = Some ''en'',
                 request_params.prompt = None,
                 timestamp_granularities = None \<rparr>
      in if truthy_string prompt then p0\<lparr>request_params.prompt := prompt\<rparr> else p0)"

text \<open>The \<^verbatim>\<open>try\<close> block of \<^verbatim>\<open>translateFile\<close>.\<close>

definition translateFile_try ::
  "env \<Rightarrow> state \<Rightarrow> string \<Rightarrow> options \<Rightarrow> (string + transcription_result) \<times> state" where
  "translateFile_try e s file_path opts =
     (case fs_access s file_path of
        Some msg \<Rightarrow> (Inl msg, s)
      | None \<Rightarrow>
          (case processAudioFile e s file_path of
             (Inl msg, s1) \<Rightarrow> (Inl msg, s1)
           | (Inr processedResult, s1) \<Rightarrow>
               if \<not> conversion_result.success processedResult then
                 (Inl (''Error procesando archivo: ''
                        @ (case conversion_result.error processedResult of
                             None \<Rightarrow> ''undefined'' | Some m \<Rightarrow> m)), s1)
               else
                 (case processedPath processedResult of
                    None \<Rightarrow> (Inl path_argument_error, s1)
                  | Some actualFilePath \<Rightarrow>
                      let fileName = path_basename actualFilePath;
                          params = translationParams (this_model s1) actualFilePath opts
                      in (case translations_create e s1 params of
                            Inl msg \<Rightarrow> (Inl msg, s1)
                          | Inr payload \<Rightarrow>
                              (case new_Date e s1 of
                                 (now, s2) \<Rightarrow>
                                   (Inr \<lparr> transcription_result.success = True,
                                          transcription = JUndefined,
                                          translation = payload,
                                          transcription_result.metadata =
                                            \<lparr> metadata.fileName = fileName,
                                              originalFilePath = file_path,
                                              processedFilePath = actualFilePath,
                                              metadata.wasConverted =
                                                conversion_result.wasConverted processedResult,
                                              conversionInfo = conversionInfo_of processedResult,
                                              metadata.model = request_params.model params,
                                              metadata.language = None,
                                              targetLanguage = Some ''en'',
                                              metadata.timestamp = now \<rparr> \<rparr>, s2))))))"

definition translateFile ::
  "env \<Rightarrow> state \<Rightarrow> string \<Rightarrow> options \<Rightarrow> (string + transcription_result) \<times> state" where
  "translateFile e s file_path opts =
     (case translateFile_try e s file_path opts of
        (Inr r, s') \<Rightarrow> (Inr r, s')
      | (Inl msg, s') \<Rightarrow> (Inl (''Error al traducir el archivo: '' @ msg), s'))"

text \<open>
  The body text that \<^verbatim>\<open>saveTranscription\<close> extracts from the \<^verbatim>\<open>transcription\<close> property:
  the value itself when it is a string, else its \<^verbatim>\<open>text\<close> property when that is truthy,
  else \<^verbatim>\<open>JSON.stringify(transcription, null, 2)\<close>. \<open>Inl\<close> is the message of the TypeError
  of the property read.
\<close>

definition transcription_content :: "env \<Rightarrow> jsval \<Rightarrow> string + jsval" where
  "transcription_content e v =
     (if typeof_string v then Inr v
      else (case get_text v of
              Inl msg \<Rightarrow> Inl msg
            | Inr t \<Rightarrow> if truthy t then Inr t else Inr (JStr (JSON_stringify e v))))"

text \<open>A value inside a template literal.\<close>

fun template_string :: "env \<Rightarrow> jsval \<Rightarrow> string" where
  "template_string e (JStr s) = s"
| "template_string e v = String_of e v"

definition fileContent_of :: "env \<Rightarrow> metadata \<Rightarrow> jsval \<Rightarrow> string" where
  "fileContent_of e m content =
     ''# Transcripci'' @ o_acute @ ''n generada autom'' @ a_acute @ ''ticamente'' @ newline
     @ ''# Archivo: '' @ metadata.fileName m @ newline
     @ ''# Modelo: '' @ metadata.model m @ newline
     @ ''# Fecha: '' @ metadata.timestamp m @ newline
     @ ''# Idioma: '' @ or_string (metadata.language m) ''auto-detect'' @ newline
     @ newline
     @ template_string e content @ newline"

text \<open>The \<^verbatim>\<open>try\<close> block of \<^verbatim>\<open>saveTranscription\<close>.\<close>

definition saveTranscription_try ::
  "env \<Rightarrow> state \<Rightarrow> transcription_result \<Rightarrow> string \<Rightarrow> (string + string) \<times> state" where
  "saveTranscription_try e s transcriptionResult outputDirectory =
     (case fs_mkdir e s outputDirectory of
        Some msg \<Rightarrow> (Inl msg, s)
      | None \<Rightarrow>
          let s1 = s\<lparr>files := insert outputDirectory (files s)\<rparr>;
              m = transcription_result.metadata transcriptionResult;
              fileName = path_parse_name (metadata.fileName m) @ ''.txt'';
              outputPath = path_join [outputDirectory, fileName]
          in (case transcription_content e (transcription transcriptionResult) of
                Inl msg \<Rightarrow> (Inl msg, s1)
              | Inr content \<Rightarrow>
                  (case fs_writeFile e s1 outputPath (fileContent_of e m content) of
                     Some msg \<Rightarrow> (Inl msg, s1)
                   | None \<Rightarrow> (Inr outputPath, s1\<lparr>files := insert outputPath (files s1)\<rparr>))))"

definition saveTranscription ::
  "env \<Rightarrow> state \<Rightarrow> transcription_result \<Rightarrow> string \<Rightarrow> (string + string) \<times> state" where
  "saveTranscription e s transcriptionResult outputDirectory =
     (case saveTranscription_try e s transcriptionResult outputDirectory of
        (Inr p, s') \<Rightarrow> (Inr p, s')
      | (Inl msg, s') \<Rightarrow>
          (Inl (''Error al guardar transcripci'' @ o_acute @ ''n: '' @ msg), s'))"

text \<open>
  One iteration of the loop of \<^verbatim>\<open>processAudioDirectory\<close>: the inner \<^verbatim>\<open>try\<close> and its
  \<^verbatim>\<open>catch\<close>, on the array \<^verbatim>\<open>results\<close>. The result of the transcription is pushed before
  the transcript is saved; the transcript is saved when \<^verbatim>\<open>outputDirectory\<close> is truthy
  (neither \<^verbatim>\<open>null\<close> nor the empty string).
\<close>

definition failure_entry :: "string \<Rightarrow> string \<Rightarrow> string \<Rightarrow> string \<Rightarrow> report_entry" where
  "failure_entry msg name full_path now =
     FailureEntry \<lparr> failure_record.success = False,
                    failure_record.error = msg,
                    failure_record.metadata =
                      \<lparr> failure_metadata.fileName = name,
                        filePath = full_path,
                        failure_metadata.timestamp = now \<rparr> \<rparr>"

definition processAudioDirectory_step ::
  "env \<Rightarrow> string \<Rightarrow> options \<Rightarrow> string option \<Rightarrow> report_entry list \<times> state \<Rightarrow> string
     \<Rightarrow> report_entry list \<times> state" where
  "processAudioDirectory_step e audioDirectory opts outputDirectory acc file_name =
     (case acc of
        (results, s) \<Rightarrow>
          let full_path = path_join [audioDirectory, file_name]
          in (case transcribeFile e s full_path opts of
                (Inl msg, s1) \<Rightarrow>
                  (case new_Date e s1 of
                     (now, s2) \<Rightarrow> (results @ [failure_entry msg file_name full_path now], s2))
              | (Inr result, s1) \<Rightarrow>
                  let results1 = results @ [ResultEntry result]
                  in (case outputDirectory of
                        None \<Rightarrow> (results1, s1)
                      | Some out_dir \<Rightarrow>
                          if out_dir = [] then (results1, s1)
                          else
                            (case saveTranscription e s1 result out_dir of
                               (Inr saved, s2) \<Rightarrow> (results1, s2)
                             | (Inl msg, s2) \<Rightarrow>
                                 (case new_Date e s2 of
                                    (now, s3) \<Rightarrow>
                                      (results1 @ [failure_entry msg file_name full_path now],
                                       s3))))))"

definition audioExtensions :: "string list" where
  "audioExtensions =
     [''.mp3'', ''.wav'', ''.m4a'', ''.flac'', ''.ogg'', ''.opus'', ''.webm'', ''.mp4'',
      ''.mpeg'', ''.mpga'']"

definition audioFiles_of :: "string list \<Rightarrow> string list" where
  "audioFiles_of listing =
     filter (\<lambda>f. toLowerCase (path_extname f) \<in> set audioExtensions) listing"

definition processAudioDirectory ::
  "env \<Rightarrow> state \<Rightarrow> string \<Rightarrow> options \<Rightarrow> string option
     \<Rightarrow> (string + report_entry list) \<times> state" where
  "processAudioDirectory e s audioDirectory opts outputDirectory =
     (case fs_readdir e s audioDirectory of
        Inl msg \<Rightarrow> (Inl (''Error al procesar directorio de audio: '' @ msg), s)
      | Inr listing \<Rightarrow>
          (case foldl (processAudioDirectory_step e audioDirectory opts outputDirectory)
                  ([], s) (audioFiles_of listing) of
             (results, s') \<Rightarrow> (Inr results, s')))"

text \<open>The counts that the route \<^verbatim>\<open>POST /api/audio/process-directory\<close> takes from the report.\<close>

definition successCount :: "report_entry list \<Rightarrow> nat" where
  "successCount results = length (filter entry_success results)"

definition errorCount :: "report_entry list \<Rightarrow> nat" where
  "errorCount results = length (filter (\<lambda>r. \<not> entry_success r) results)"

text \<open>
  The loop seen from outside: the state in which it reaches the file at position \<open>k\<close> of
  the list it runs over, and the entries that the iteration for that file pushes.
\<close>

definition state_before ::
  "env \<Rightarrow> string \<Rightarrow> options \<Rightarrow> string option \<Rightarrow> state \<Rightarrow> string list \<Rightarrow> nat \<Rightarrow> state" where
  "state_before e audioDirectory opts outputDirectory s audioFiles k =
     snd (foldl (processAudioDirectory_step e audioDirectory opts outputDirectory)
            ([], s) (take k audioFiles))"

definition iteration_entries ::
  "env \<Rightarrow> string \<Rightarrow> options \<Rightarrow> string option \<Rightarrow> state \<Rightarrow> string list \<Rightarrow> nat
     \<Rightarrow> report_entry list" where
  "iteration_entries e audioDirectory opts outputDirectory s audioFiles k =
     fst (processAudioDirectory_step e audioDirectory opts outputDirectory
            ([], state_before e audioDirectory opts outputDirectory s audioFiles k)
            (audioFiles ! k))"

text \<open>
  The two ways in which the iteration for the file at position \<open>k\<close> can fail: the
  transcription throws, or the transcription returns and saving its transcript throws.
\<close>

definition transcription_throws_at ::
  "env \<Rightarrow> string \<Rightarrow> options \<Rightarrow> string option \<Rightarrow> state \<Rightarrow> string list \<Rightarrow> nat \<Rightarrow> bool" where
  "transcription_throws_at e audioDirectory opts outputDirectory s audioFiles k =
     isl (fst (transcribeFile e
                 (state_before e audioDirectory opts outputDirectory s audioFiles k)
                 (path_join [audioDirectory, audioFiles ! k]) opts))"

definition save_throws_at ::
  "env \<Rightarrow> string \<Rightarrow> options \<Rightarrow> string option \<Rightarrow> state \<Rightarrow> string list \<Rightarrow> nat \<Rightarrow> bool" where
  "save_throws_at e audioDirectory opts outputDirectory s audioFiles k =
     (case transcribeFile e
             (state_before e audioDirectory opts outputDirectory s audioFiles k)
             (path_join [audioDirectory, audioFiles ! k]) opts of
        (Inl msg, s1) \<Rightarrow> False
      | (Inr result, s1) \<Rightarrow>
          (case outputDirectory of
             None \<Rightarrow> False
           | Some out_dir \<Rightarrow>
               out_dir \<noteq> [] \<and> isl (fst (saveTranscription e s1 result out_dir))))"

section \<open>Concrete scenarios\<close>

text \<open>
  Environments and states on which the theorems below are exercised: a remote service
  that answers, a converter that ends, a file system that accepts every write
  (\<open>env_ok\<close>); the same where the transcript of \<^verbatim>\<open>a.mp3\<close> cannot be written
  (\<open>env_write_fails\<close>); the same where the remote service rejects \<^verbatim>\<open>b.mp3\<close>
  (\<open>env_remote_fails\<close>); the same with a converter that fails (\<open>env_ffmpeg_fails\<close>).
\<close>

definition no_options :: options where
  "no_options =
     \<lparr> options.language = None,
       options.prompt = None,
       responseFormat = None,
       timestampGranularities = None,
       options.temperature = None \<rparr>"


definition env_ok :: env where
  "env_ok =
     \<lparr> ffmpeg = (\<lambda>s c. FfmpegEnd),
       transcriptions_create = (\<lambda>s p. Inr (JObj [(''text'', JStr ''hola'')])),
       translations_create = (\<lambda>s p. Inr (JObj [(''text'', JStr ''hello'')])),
       fs_mkdir = (\<lambda>s d. None),
       fs_writeFile = (\<lambda>s p c. None),
       fs_readdir = (\<lambda>s d. Inr [''a.mp3'', ''notes.txt'', ''b.mp3'']),
       toISOString = (\<lambda>n. ''2024-01-01T00:00:00.000Z''),
       JSON_stringify = (\<lambda>v. ''{}''),
       String_of = (\<lambda>v. ''[object Object]'') \<rparr>"

definition env_write_fails :: env where
  "env_write_fails =
     env_ok\<lparr>fs_writeFile :=
              (\<lambda>s p c. if p = ''texts/a.txt''
                       then Some (''EACCES: permission denied, open '' @ quote @ p @ quote)
                       else None)\<rparr>"

definition env_remote_fails :: env where
  "env_remote_fails =
     env_ok\<lparr>transcriptions_create :=
              (\<lambda>s p. if file_stream p = ''audios/b.mp3'' then Inl ''401 Invalid API Key''
                     else Inr (JObj [(''text'', JStr ''hola'')]))\<rparr>"

text \<open>
  A remote service that answers with what it was asked (\<open>env_echo\<close>): the file, the model
  and the timestamp granularities of the request it received.
\<close>

definition echo :: "request_params \<Rightarrow> jsval" where
  "echo req =
     JObj [(''file'', JStr (file_stream req)),
           (''model'', JStr (request_params.model req)),
           (''timestamp_granularities'',
              (case timestamp_granularities req of
                 None \<Rightarrow> JUndefined
               | Some g \<Rightarrow> JArr (map JStr g)))]"

definition env_echo :: env where
  "env_echo =
     env_ok\<lparr>transcriptions_create := (\<lambda>s req. Inr (echo req)),
            translations_create := (\<lambda>s req. Inr (echo req))\<rparr>"


definition s_audio :: state where
  "s_audio =
     \<lparr> this_model = ''whisper-large-v3-turbo'',
       files = {''audios/a.mp3'', ''audios/b.mp3'', ''voice.opus'', ''voice.OPUS''},
       clock = 0 \<rparr>"

section \<open>Facts about the path functions\<close>

text \<open>The examples of the documentation of Node's \<^verbatim>\<open>path\<close> module (POSIX).\<close>

lemma path_extname_examples:
  "path_extname ''index.html'' = ''.html''"
  "path_extname ''index.coffee.md'' = ''.md''"
  "path_extname ''index.'' = ''.''"
  "path_extname ''index'' = []"
  "path_extname ''.index'' = []"
  "path_extname ''.index.md'' = ''.md''"
  by code_simp+

lemma path_basename_examples:
  "path_basename ''/foo/bar/baz/asdf/quux.html'' = ''quux.html''"
  "path_basename_ext ''/foo/bar/baz/asdf/quux.html'' ''.html'' = ''quux''"
  "path_basename_ext ''/foo/bar/baz/asdf/quux.HTML'' ''.html'' = ''quux.HTML''"
  by code_simp+

lemma path_dirname_examples:
  "path_dirname ''/foo/bar/baz/asdf/quux'' = ''/foo/bar/baz/asdf''"
  "path_dirname ''quux.opus'' = ''.''"
  by code_simp+

lemma path_join_examples:
  "path_join [''/foo'', ''bar'', ''baz/asdf'', ''quux'', ''..''] = ''/foo/bar/baz/asdf''"
  "path_normalize ''/foo/bar//baz/asdf/quux/..'' = ''/foo/bar/baz/asdf''"
  "path_join [''.'', ''quux.mp4''] = ''quux.mp4''"
  by code_simp+

lemma path_parse_name_examples:
  "path_parse_name ''/home/user/dir/file.txt'' = ''file''"
  "path_parse_name ''voice.mp4'' = ''voice''"
  by code_simp+

lemma lastComponent_no_slash: "CHR ''/'' \<notin> set (lastComponent p)"
proof
  assume "CHR ''/'' \<in> set (lastComponent p)"
  then have "CHR ''/'' \<in> set (takeWhile (\<lambda>c. \<not> isSlash c) (dropWhile isSlash (rev p)))"
    by (simp add: lastComponent_def)
  then have "\<not> isSlash (CHR ''/'')" by (rule set_takeWhileD [THEN conjunct2])
  then show False by (simp add: isSlash_def)
qed

lemma lastComponent_length: "length (lastComponent p) \<le> length p"
proof -
  have "length (takeWhile (\<lambda>c. \<not> isSlash c) (dropWhile isSlash (rev p)))
          \<le> length (dropWhile isSlash (rev p))"
    by (rule length_takeWhile_le)
  also have "\<dots> \<le> length (rev p)" by (rule length_dropWhile_le)
  finally show ?thesis by (simp add: lastComponent_def)
qed

lemma lastComponent_append:
  assumes "n \<noteq> []" and "CHR ''/'' \<notin> set n" and "pre = [] \<or> last pre = CHR ''/''"
  shows "lastComponent (pre @ n) = n"
proof -
  have hd: "\<not> isSlash (hd (rev n))"
    using assms(1,2) by (cases "rev n") (auto simp: isSlash_def)
  have drop: "dropWhile isSlash (rev n @ rev pre) = rev n @ rev pre"
    using assms(1) hd by (cases "rev n") simp_all
  have all: "\<forall>x \<in> set (rev n). \<not> isSlash x"
    using assms(2) by (auto simp: isSlash_def)
  have tw: "takeWhile (\<lambda>c. \<not> isSlash c) (rev pre) = []"
    using assms(3) by (cases pre rule: rev_cases) (simp_all add: isSlash_def)
  have "takeWhile (\<lambda>c. \<not> isSlash c) (rev n @ rev pre)
          = rev n @ takeWhile (\<lambda>c. \<not> isSlash c) (rev pre)"
    by (rule takeWhile_append2) (use all in blast)
  then have "takeWhile (\<lambda>c. \<not> isSlash c) (rev n @ rev pre) = rev n"
    using tw by simp
  then show ?thesis by (simp add: lastComponent_def drop)
qed

lemma splitSegments_not_Nil: "splitSegments p \<noteq> []"
  by (induction p) (auto split: list.splits)

lemma splitSegments_append_slash:
  "splitSegments (a @ CHR ''/'' # b) = splitSegments a @ splitSegments b"
proof (induction a)
  case Nil
  show ?case by (simp add: isSlash_def)
next
  case (Cons c a)
  then show ?case
    using splitSegments_not_Nil [of a]
    by (cases "splitSegments a") (auto simp: isSlash_def)
qed

lemma splitSegments_no_slash: "CHR ''/'' \<notin> set n \<Longrightarrow> splitSegments n = [n]"
  by (induction n) (auto simp: isSlash_def)

lemma joinSegments_snoc:
  "joinSegments (xs @ [n]) = (if xs = [] then n else joinSegments xs @ ''/'' @ n)"
  by (induction xs rule: joinSegments.induct) auto

lemma normalizeStep_plain:
  "n \<noteq> [] \<Longrightarrow> n \<noteq> ''.'' \<Longrightarrow> n \<noteq> ''..'' \<Longrightarrow> normalizeStep a res n = n # res"
  by (simp add: normalizeStep_def)

lemma normalizeString_ends:
  assumes "n \<noteq> []" and "CHR ''/'' \<notin> set n" and "n \<noteq> ''.''" and "n \<noteq> ''..''"
    and "q = n \<or> q = d @ CHR ''/'' # n"
  shows "\<exists>pre. normalizeString q a = pre @ n \<and> (pre = [] \<or> last pre = CHR ''/'')"
proof -
  obtain segs where segs: "splitSegments q = segs @ [n]"
  proof -
    from assms(5) show ?thesis
    proof
      assume "q = n"
      then have "splitSegments q = [] @ [n]" using assms(2) by (simp add: splitSegments_no_slash)
      then show ?thesis by (rule that)
    next
      assume "q = d @ CHR ''/'' # n"
      then have "splitSegments q = splitSegments d @ [n]"
        using assms(2) by (simp add: splitSegments_append_slash splitSegments_no_slash)
      then show ?thesis by (rule that)
    qed
  qed
  define R where "R = rev (foldl (normalizeStep a) [] segs)"
  have "normalizeString q a = joinSegments (R @ [n])"
    using assms(1,3,4) by (simp add: normalizeString_def segs R_def normalizeStep_plain)
  then have "normalizeString q a = (if R = [] then [] else joinSegments R @ ''/'') @ n"
    by (simp add: joinSegments_snoc)
  moreover have "(if R = [] then [] else joinSegments R @ ''/'') = []
      \<or> last (if R = [] then [] else joinSegments R @ ''/'') = CHR ''/''"
    by simp
  ultimately show ?thesis by blast
qed


lemma path_normalize_ends:
  assumes "n \<noteq> []" and "CHR ''/'' \<notin> set n" and "n \<noteq> ''.''" and "n \<noteq> ''..''"
    and "q = n \<or> q = d @ CHR ''/'' # n"
  shows "\<exists>pre. path_normalize q = pre @ n \<and> (pre = [] \<or> last pre = CHR ''/'')"
proof -
  have q: "q \<noteq> []" using assms(1,5) by auto
  have lastq: "last q = last n" using assms(1,5) by auto
  have "last n \<in> set n" using assms(1) by simp
  then have nots: "\<not> isSlash (last q)" using assms(2) lastq by (auto simp: isSlash_def)
  obtain pre where pre: "normalizeString q (\<not> isSlash (hd q)) = pre @ n"
      "pre = [] \<or> last pre = CHR ''/''"
    using normalizeString_ends [OF assms] by blast
  have "path_normalize q = (if isSlash (hd q) then ''/'' else []) @ pre @ n"
    using q nots pre(1) assms(1) by (simp add: path_normalize_def Let_def)
  moreover have "(if isSlash (hd q) then ''/'' else []) @ pre = []
      \<or> last ((if isSlash (hd q) then ''/'' else []) @ pre) = CHR ''/''"
    using pre(2) by auto
  ultimately show ?thesis by (metis append_assoc)
qed

lemma path_join_ends:
  assumes "n \<noteq> []" and "CHR ''/'' \<notin> set n" and "n \<noteq> ''.''" and "n \<noteq> ''..''"
  shows "\<exists>pre. path_join [d, n] = pre @ n \<and> (pre = [] \<or> last pre = CHR ''/'')"
proof (cases "d = []")
  case True
  then have "path_join [d, n] = path_normalize n"
    using assms(1) by (simp add: path_join_def)
  then show ?thesis using path_normalize_ends [OF assms, of n d] by simp
next
  case False
  then have "path_join [d, n] = path_normalize (d @ CHR ''/'' # n)"
    using assms(1) by (simp add: path_join_def)
  then show ?thesis using path_normalize_ends [OF assms, of "d @ CHR ''/'' # n" d] by simp
qed

lemma path_basename_join:
  assumes "n \<noteq> []" and "CHR ''/'' \<notin> set n" and "n \<noteq> ''.''" and "n \<noteq> ''..''"
  shows "path_basename (path_join [d, n]) = n"
proof -
  obtain pre where "path_join [d, n] = pre @ n" and "pre = [] \<or> last pre = CHR ''/''"
    using path_join_ends [OF assms, of d] by blast
  then show ?thesis
    using lastComponent_append [OF assms(1,2), of pre] by (simp add: path_basename_def)
qed

lemma toLowerCase_length: "length (toLowerCase s) = length s"
  by (simp add: toLowerCase_def)

lemma path_extname_shape:
  assumes "path_extname p = ext" and "ext \<noteq> []"
  shows "\<exists>pre t. lastComponent p = pre @ ext \<and> pre \<noteq> [] \<and> ext = CHR ''.'' # t
           \<and> CHR ''.'' \<notin> set t"
proof -
  define c where "c = lastComponent p"
  define t where "t = takeWhile (\<lambda>x. \<not> isDot x) (rev c)"
  define rest where "rest = dropWhile (\<lambda>x. \<not> isDot x) (rev c)"
  have dot: "CHR ''.'' \<in> set c"
    using assms by (auto simp: path_extname_def Let_def c_def split: if_splits)
  have split: "rev c = t @ rest" by (simp add: t_def rest_def)
  have "rest \<noteq> []"
    using dot by (auto simp: rest_def isDot_def dropWhile_eq_Nil_conv)
  moreover have "rest \<noteq> [] \<Longrightarrow> isDot (hd rest)"
    unfolding rest_def using hd_dropWhile [of "\<lambda>x. \<not> isDot x" "rev c"] by simp
  ultimately obtain r where r: "rest = CHR ''.'' # r"
    by (cases rest) (auto simp: isDot_def)
  have drop: "drop (Suc (length t)) (rev c) = r" by (simp add: split r)
  have ext: "ext = CHR ''.'' # rev t" and pre: "r \<noteq> []"
    using assms dot drop by (auto simp: path_extname_def Let_def c_def [symmetric] t_def [symmetric] split: if_splits)
  have "c = rev r @ CHR ''.'' # rev t"
    using split r by (metis rev_append rev_rev_ident rev.simps(2) append_assoc append_Cons append_Nil)
  moreover have "CHR ''.'' \<notin> set (rev t)"
    using set_takeWhileD [of "CHR ''.''" "\<lambda>x. \<not> isDot x" "rev c"] by (auto simp: t_def isDot_def)
  ultimately show ?thesis using ext pre by (auto simp: c_def)
qed

lemma toLowerCase_opus_length: "toLowerCase ext = ''.opus'' \<Longrightarrow> length ext = 5"
  using toLowerCase_length [of ext] by simp

lemma needsConversion_shape:
  assumes "needsConversion p"
  shows "\<exists>pre. lastComponent p = pre @ path_extname p \<and> pre \<noteq> []
           \<and> toLowerCase (path_extname p) = ''.opus'' \<and> length (path_extname p) = 5"
proof -
  have low: "toLowerCase (path_extname p) = ''.opus''"
    using assms by (simp add: needsConversion_def)
  then have len: "length (path_extname p) = 5" by (rule toLowerCase_opus_length)
  then have "path_extname p \<noteq> []" by auto
  then obtain pre where "lastComponent p = pre @ path_extname p" and "pre \<noteq> []"
    using path_extname_shape [of p "path_extname p"] by blast
  then show ?thesis using low len by blast
qed

lemma path_extname_dot_opus: "path_extname ''.opus'' = []"
  by code_simp

lemma path_basename_ext_exact:
  assumes "path_extname p = ''.opus''"
  shows "lastComponent p = path_basename_ext p ''.opus'' @ ''.opus''
       \<and> path_basename_ext p ''.opus'' \<noteq> []"
proof -
  obtain pre where c: "lastComponent p = pre @ ''.opus''" and pre: "pre \<noteq> []"
    using path_extname_shape [of p "''.opus''"] assms by auto
  have "length (lastComponent p) \<le> length p" by (rule lastComponent_length)
  then have len: "\<not> length p < length ''.opus''" using c by simp
  have ne: "''.opus'' \<noteq> p"
  proof
    assume "''.opus'' = p"
    then have "path_extname p = []" using path_extname_dot_opus by auto
    then show False using assms by simp
  qed
  have "path_basename_ext p ''.opus'' = pre"
    using len ne pre by (simp add: path_basename_ext_def Let_def c endsWith_def)
  then show ?thesis using c pre by simp
qed

lemma path_basename_ext_other:
  assumes "needsConversion p" and "path_extname p \<noteq> ''.opus''"
  shows "path_basename_ext p ''.opus'' = lastComponent p"
proof -
  obtain pre where c: "lastComponent p = pre @ path_extname p"
    and len: "length (path_extname p) = 5"
    using needsConversion_shape [OF assms(1)] by blast
  have "\<not> endsWith (lastComponent p) ''.opus''"
    using assms(2) len by (simp add: endsWith_def c)
  moreover have "''.opus'' \<noteq> p"
  proof
    assume "''.opus'' = p"
    then have "path_extname p = []" using path_extname_dot_opus by auto
    then show False using len by simp
  qed
  ultimately show ?thesis by (simp add: path_basename_ext_def Let_def)
qed

lemma path_basename_ext_stem:
  assumes "needsConversion p"
  shows "path_basename_ext p ''.opus'' \<noteq> [] \<and> CHR ''/'' \<notin> set (path_basename_ext p ''.opus'')"
proof (cases "path_extname p = ''.opus''")
  case True
  from path_basename_ext_exact [OF True]
  have c: "lastComponent p = path_basename_ext p ''.opus'' @ ''.opus''"
    and ne: "path_basename_ext p ''.opus'' \<noteq> []" by simp_all
  have "CHR ''/'' \<notin> set (lastComponent p)" by (rule lastComponent_no_slash)
  then have "CHR ''/'' \<notin> set (path_basename_ext p ''.opus'')" unfolding c by simp
  then show ?thesis using ne by simp
next
  case False
  then have eq: "path_basename_ext p ''.opus'' = lastComponent p"
    using assms by (rule path_basename_ext_other [rotated])
  obtain pre where "lastComponent p = pre @ path_extname p" and "pre \<noteq> []"
    using needsConversion_shape [OF assms] by blast
  then have "lastComponent p \<noteq> []" by simp
  then show ?thesis using eq lastComponent_no_slash [of p] by simp
qed

lemma path_extname_mp4:
  assumes "lastComponent q = stem @ ''.mp4''" and "stem \<noteq> []"
  shows "path_extname q = ''.mp4''"
  using assms by (cases "rev stem") (auto simp: path_extname_def Let_def isDot_def)

lemma outputPath_basename:
  assumes "needsConversion p"
  shows "path_basename (convertOpusToMp4_outputPath p) = path_basename_ext p ''.opus'' @ ''.mp4''"
proof -
  define n where "n = path_basename_ext p ''.opus'' @ ''.mp4''"
  have "n \<noteq> []" and "CHR ''/'' \<notin> set n" and "n \<noteq> ''.''" and "n \<noteq> ''..''"
    using path_basename_ext_stem [OF assms] by (auto simp: n_def)
  then have "path_basename (path_join [path_dirname p, n]) = n"
    by (rule path_basename_join)
  then show ?thesis by (simp add: convertOpusToMp4_outputPath_def Let_def n_def)
qed

lemma outputPath_extname:
  assumes "needsConversion p"
  shows "path_extname (convertOpusToMp4_outputPath p) = ''.mp4''"
  using outputPath_basename [OF assms] path_basename_ext_stem [OF assms]
  by (intro path_extname_mp4 [of _ "path_basename_ext p ''.opus''"]) (simp_all add: path_basename_def)

lemma outputPath_differs:
  assumes "needsConversion p"
  shows "convertOpusToMp4_outputPath p \<noteq> p"
proof
  assume "convertOpusToMp4_outputPath p = p"
  then have "path_extname p = ''.mp4''" using outputPath_extname [OF assms] by simp
  then have "toLowerCase (path_extname p) = ''.mp4''" by (simp add: toLowerCase_def toLowerChar_def)
  then show False using assms by (simp add: needsConversion_def)
qed


subsection \<open>The directory of the converted file\<close>














section \<open>The configured model is read, never written\<close>

lemma convertOpusToMp4_this_model:
  "this_model (snd (convertOpusToMp4 e s p)) = this_model s"
  by (simp add: convertOpusToMp4_def Let_def split: option.splits ffmpeg_event.splits)

lemma processAudioFile_this_model:
  "this_model (snd (processAudioFile e s p)) = this_model s"
  using convertOpusToMp4_this_model [of e s p]
  by (auto simp: processAudioFile_def processAudioFile_try_def split: prod.splits sum.splits)

lemma translateFile_try_this_model:
  "this_model (snd (translateFile_try e s p opts)) = this_model s"
  using processAudioFile_this_model [of e s p]
  by (auto simp: translateFile_try_def new_Date_def Let_def
           split: option.splits prod.splits sum.splits)

lemma translateFile_this_model:
  "this_model (snd (translateFile e s p opts)) = this_model s"
  using translateFile_try_this_model [of e s p opts]
  by (auto simp: translateFile_def split: prod.splits sum.splits)

lemma transcribeFile_try_model:
  "fst (transcribeFile_try e s p opts) = Inr r \<Longrightarrow>
     metadata.model (transcription_result.metadata r) = this_model s"
  using processAudioFile_this_model [of e s p]
  by (auto simp: transcribeFile_try_def new_Date_def Let_def
           split: option.splits prod.splits sum.splits if_splits)

lemma transcribeFile_model:
  "fst (transcribeFile e s p opts) = Inr r \<Longrightarrow>
     metadata.model (transcription_result.metadata r) = this_model s"
  using transcribeFile_try_model [of e s p opts r]
  by (auto simp: transcribeFile_def split: prod.splits sum.splits)

lemma translationParams_model:
  "request_params.model (translationParams m a opts) =
     (if m = ''whisper-large-v3-turbo'' then ''whisper-large-v3'' else m)"
  by (simp add: translationParams_def Let_def)

lemma translateFile_try_model:
  "fst (translateFile_try e s p opts) = Inr r \<Longrightarrow>
     metadata.model (transcription_result.metadata r) =
       (if this_model s = ''whisper-large-v3-turbo'' then ''whisper-large-v3'' else this_model s)"
  using processAudioFile_this_model [of e s p]
  by (auto simp: translateFile_try_def translationParams_def new_Date_def Let_def
           split: option.splits prod.splits sum.splits if_splits)

lemma translateFile_model:
  "fst (translateFile e s p opts) = Inr r \<Longrightarrow>
     metadata.model (transcription_result.metadata r) =
       (if this_model s = ''whisper-large-v3-turbo'' then ''whisper-large-v3'' else this_model s)"
  using translateFile_try_model [of e s p opts r]
  by (auto simp: translateFile_def split: prod.splits sum.splits)

lemma not_isl_Inr: "\<not> isl x \<Longrightarrow> \<exists>r. x = Inr r"
  by (cases x) simp_all

section \<open>Conversion results and the files that exist\<close>

lemma convertOpusToMp4_result:
  "fst (convertOpusToMp4 e s p) = Inr q \<Longrightarrow>
     q = convertOpusToMp4_outputPath p \<and> p \<in> files s
     \<and> ffmpeg e s (ffmpeg_job p (convertOpusToMp4_outputPath p)) = FfmpegEnd
     \<and> snd (convertOpusToMp4 e s p) = s\<lparr>files := insert q (files s)\<rparr>"
  by (auto simp: convertOpusToMp4_def fs_access_def Let_def
           split: option.splits ffmpeg_event.splits if_splits)

lemma convertOpusToMp4_ok:
  "p \<in> files s \<Longrightarrow> ffmpeg e s (ffmpeg_job p (convertOpusToMp4_outputPath p)) = FfmpegEnd \<Longrightarrow>
     convertOpusToMp4 e s p
       = (Inr (convertOpusToMp4_outputPath p),
          s\<lparr>files := insert (convertOpusToMp4_outputPath p) (files s)\<rparr>)"
  by (simp add: convertOpusToMp4_def fs_access_def Let_def)

lemma convertOpusToMp4_fails:
  "p \<notin> files s \<or> ffmpeg e s (ffmpeg_job p (convertOpusToMp4_outputPath p)) \<noteq> FfmpegEnd \<Longrightarrow>
     isl (fst (convertOpusToMp4 e s p))"
  by (auto simp: convertOpusToMp4_def fs_access_def Let_def split: ffmpeg_event.splits)

lemma convertOpusToMp4_files:
  "files s \<subseteq> files (snd (convertOpusToMp4 e s p))"
  by (auto simp: convertOpusToMp4_def Let_def split: option.splits ffmpeg_event.splits)

lemma processAudioFile_files:
  "files s \<subseteq> files (snd (processAudioFile e s p))"
  using convertOpusToMp4_files [of s e p]
  by (auto simp: processAudioFile_def processAudioFile_try_def split: prod.splits sum.splits)

lemma transcribeFile_files:
  "files s \<subseteq> files (snd (transcribeFile e s p opts))"
  using processAudioFile_files [of s e p]
  by (auto simp: transcribeFile_def transcribeFile_try_def new_Date_def Let_def
           split: option.splits prod.splits sum.splits)

lemma translateFile_files:
  "files s \<subseteq> files (snd (translateFile e s p opts))"
  using processAudioFile_files [of s e p]
  by (auto simp: translateFile_def translateFile_try_def new_Date_def Let_def
           split: option.splits prod.splits sum.splits)

lemma processAudioFile_compatible:
  "\<not> needsConversion p \<Longrightarrow>
     processAudioFile e s p =
       (Inr \<lparr> conversion_result.success = True, originalPath = p, processedPath = Some p,
              wasConverted = False, originalFormat = None, targetFormat = None,
              error = None \<rparr>, s)"
  by (simp add: processAudioFile_def processAudioFile_try_def)

lemma processAudioFile_converted:
  assumes "needsConversion p" and "p \<in> files s"
    and "ffmpeg e s (ffmpeg_job p (convertOpusToMp4_outputPath p)) = FfmpegEnd"
  shows "processAudioFile e s p =
       (Inr \<lparr> conversion_result.success = True, originalPath = p,
              processedPath = Some (convertOpusToMp4_outputPath p),
              wasConverted = True, originalFormat = Some ''opus'', targetFormat = Some ''mp4'',
              error = None \<rparr>,
        s\<lparr>files := insert (convertOpusToMp4_outputPath p) (files s)\<rparr>)"
  using assms by (simp add: processAudioFile_def processAudioFile_try_def convertOpusToMp4_ok)

lemma processAudioFile_failed:
  assumes "needsConversion p"
    and "p \<notin> files s \<or> ffmpeg e s (ffmpeg_job p (convertOpusToMp4_outputPath p)) \<noteq> FfmpegEnd"
  shows "\<exists>r. fst (processAudioFile e s p) = Inr r \<and> \<not> conversion_result.success r
           \<and> \<not> conversion_result.wasConverted r \<and> processedPath r = None
           \<and> conversion_result.error r \<noteq> None \<and> originalPath r = p"
  using assms(1) convertOpusToMp4_fails [OF assms(2)]
  by (cases "convertOpusToMp4 e s p"; cases "fst (convertOpusToMp4 e s p)")
     (auto simp: processAudioFile_def processAudioFile_try_def)

lemma processAudioFile_success:
  assumes "fst (processAudioFile e s p) = Inr r" and "conversion_result.success r"
  shows "conversion_result.wasConverted r = needsConversion p
       \<and> processedPath r = Some (if needsConversion p then convertOpusToMp4_outputPath p else p)
       \<and> (needsConversion p \<longrightarrow> p \<in> files s
             \<and> snd (processAudioFile e s p)
                 = s\<lparr>files := insert (convertOpusToMp4_outputPath p) (files s)\<rparr>)"
proof (cases "needsConversion p")
  case False
  then show ?thesis using assms by (auto simp: processAudioFile_compatible)
next
  case True
  show ?thesis
  proof (cases "p \<in> files s \<and> ffmpeg e s (ffmpeg_job p (convertOpusToMp4_outputPath p)) = FfmpegEnd")
    case True
    then show ?thesis using assms \<open>needsConversion p\<close> by (auto simp: processAudioFile_converted)
  next
    case False
    then have "p \<notin> files s \<or> ffmpeg e s (ffmpeg_job p (convertOpusToMp4_outputPath p)) \<noteq> FfmpegEnd"
      by blast
    from processAudioFile_failed [OF \<open>needsConversion p\<close> this] show ?thesis using assms by auto
  qed
qed

lemma transcribeFile_try_metadata:
  assumes "fst (transcribeFile_try e s p opts) = Inr r"
  shows "\<exists>c. fst (processAudioFile e s p) = Inr c \<and> conversion_result.success c
           \<and> processedPath c = Some (processedFilePath (transcription_result.metadata r))
           \<and> metadata.wasConverted (transcription_result.metadata r) = conversion_result.wasConverted c
           \<and> metadata.fileName (transcription_result.metadata r)
               = path_basename (processedFilePath (transcription_result.metadata r))
           \<and> originalFilePath (transcription_result.metadata r) = p"
  using assms
  by (auto simp: transcribeFile_try_def new_Date_def Let_def
           split: option.splits prod.splits sum.splits if_splits)

lemma transcribeFile_metadata:
  assumes "fst (transcribeFile e s p opts) = Inr r"
  shows "\<exists>c. fst (processAudioFile e s p) = Inr c \<and> conversion_result.success c
           \<and> processedPath c = Some (processedFilePath (transcription_result.metadata r))
           \<and> metadata.wasConverted (transcription_result.metadata r) = conversion_result.wasConverted c
           \<and> metadata.fileName (transcription_result.metadata r)
               = path_basename (processedFilePath (transcription_result.metadata r))
           \<and> originalFilePath (transcription_result.metadata r) = p"
proof -
  have "fst (transcribeFile_try e s p opts) = Inr r"
    using assms by (auto simp: transcribeFile_def split: prod.splits sum.splits)
  then show ?thesis by (rule transcribeFile_try_metadata)
qed



text \<open>Deleting a file is what \<^verbatim>\<open>fs.unlink\<close> does; only the routes call it.\<close>

lemma fs_unlink_removes: "p \<in> files s \<Longrightarrow> p \<notin> files (snd (fs_unlink s p))"
  by (simp add: fs_unlink_def)

section \<open>The report of a directory\<close>

lemma step_acc:
  "processAudioDirectory_step e d opts out (rs, s) f =
     (rs @ fst (processAudioDirectory_step e d opts out ([], s) f),
      snd (processAudioDirectory_step e d opts out ([], s) f))"
  by (simp add: processAudioDirectory_step_def Let_def new_Date_def
           split: prod.splits sum.splits option.splits)

lemma loop_acc:
  "foldl (processAudioDirectory_step e d opts out) (rs, s) fs =
     (rs @ fst (foldl (processAudioDirectory_step e d opts out) ([], s) fs),
      snd (foldl (processAudioDirectory_step e d opts out) ([], s) fs))"
proof (induction fs arbitrary: rs s)
  case Nil
  show ?case by simp
next
  case (Cons f fs)
  define es where "es = fst (processAudioDirectory_step e d opts out ([], s) f)"
  define s' where "s' = snd (processAudioDirectory_step e d opts out ([], s) f)"
  have one: "processAudioDirectory_step e d opts out (rs, s) f = (rs @ es, s')"
    unfolding es_def s'_def by (rule step_acc)
  have nil: "processAudioDirectory_step e d opts out ([], s) f = (es, s')"
    by (simp add: es_def s'_def)
  show ?case
    by (simp add: one nil Cons.IH [of "rs @ es" s'] Cons.IH [of es s'])
qed

lemma loop_take_Suc:
  assumes "k < length fs"
  shows "foldl (processAudioDirectory_step e d opts out) ([], s) (take (Suc k) fs) =
     (fst (foldl (processAudioDirectory_step e d opts out) ([], s) (take k fs))
        @ iteration_entries e d opts out s fs k,
      state_before e d opts out s fs (Suc k))"
proof -
  have "foldl (processAudioDirectory_step e d opts out) ([], s) (take (Suc k) fs)
          = processAudioDirectory_step e d opts out
              (foldl (processAudioDirectory_step e d opts out) ([], s) (take k fs)) (fs ! k)"
    using assms by (simp add: take_Suc_conv_app_nth)
  also have "\<dots> = processAudioDirectory_step e d opts out
              (fst (foldl (processAudioDirectory_step e d opts out) ([], s) (take k fs)),
               state_before e d opts out s fs k) (fs ! k)"
    by (simp add: state_before_def)
  finally have eq: "foldl (processAudioDirectory_step e d opts out) ([], s) (take (Suc k) fs)
          = processAudioDirectory_step e d opts out
              (fst (foldl (processAudioDirectory_step e d opts out) ([], s) (take k fs)),
               state_before e d opts out s fs k) (fs ! k)" .
  have "fst (foldl (processAudioDirectory_step e d opts out) ([], s) (take (Suc k) fs))
         = fst (foldl (processAudioDirectory_step e d opts out) ([], s) (take k fs))
             @ iteration_entries e d opts out s fs k"
    unfolding eq by (subst step_acc) (simp add: iteration_entries_def)
  then show ?thesis by (simp add: state_before_def [of e d opts out s fs "Suc k"] prod_eq_iff)
qed

lemma loop_take:
  "n \<le> length fs \<Longrightarrow>
     fst (foldl (processAudioDirectory_step e d opts out) ([], s) (take n fs))
       = concat (map (iteration_entries e d opts out s fs) [0..<n])"
proof (induction n)
  case 0
  show ?case by simp
next
  case (Suc n)
  then show ?case by (simp add: loop_take_Suc)
qed

lemma processAudioDirectory_report:
  assumes "fs_readdir e s d = Inr listing"
  shows "fst (processAudioDirectory e s d opts out) =
           Inr (concat (map (iteration_entries e d opts out s (audioFiles_of listing))
                          [0..<length (audioFiles_of listing)]))"
  using assms loop_take [of "length (audioFiles_of listing)" "audioFiles_of listing" e d opts out s]
  by (auto simp: processAudioDirectory_def split: prod.splits)

lemma iteration_entries_length:
  "1 \<le> length (iteration_entries e d opts out s fs k)"
  by (simp add: iteration_entries_def processAudioDirectory_step_def Let_def new_Date_def
                failure_entry_def split: prod.splits sum.splits option.splits)

lemma iteration_entries_transcription_throws:
  assumes "transcription_throws_at e d opts out s fs k"
  shows "\<exists>fr. iteration_entries e d opts out s fs k = [FailureEntry fr]
           \<and> \<not> failure_record.success fr
           \<and> failure_metadata.fileName (failure_record.metadata fr) = fs ! k
           \<and> filePath (failure_record.metadata fr) = path_join [d, fs ! k]"
  using assms
  by (cases "transcribeFile e (state_before e d opts out s fs k) (path_join [d, fs ! k]) opts")
     (auto simp: transcription_throws_at_def iteration_entries_def processAudioDirectory_step_def
                 Let_def new_Date_def failure_entry_def split: sum.splits)

lemma transcribeFile_success:
  "fst (transcribeFile e s p opts) = Inr r \<Longrightarrow> transcription_result.success r"
  by (auto simp: transcribeFile_def transcribeFile_try_def Let_def new_Date_def
           split: prod.splits sum.splits option.splits if_splits)

lemma iteration_entries_ok:
  assumes "\<not> transcription_throws_at e d opts out s fs k"
    and "\<not> save_throws_at e d opts out s fs k"
  shows "\<exists>r. iteration_entries e d opts out s fs k = [ResultEntry r]
           \<and> transcription_result.success r"
proof -
  obtain x s1 where t: "transcribeFile e (state_before e d opts out s fs k)
                          (path_join [d, fs ! k]) opts = (x, s1)"
    by (cases "transcribeFile e (state_before e d opts out s fs k) (path_join [d, fs ! k]) opts")
  then obtain r where r: "x = Inr r"
    using assms(1) by (cases x) (simp_all add: transcription_throws_at_def)
  have ok: "transcription_result.success r"
    using transcribeFile_success [of e "state_before e d opts out s fs k"
                                     "path_join [d, fs ! k]" opts r] t r by simp
  have "iteration_entries e d opts out s fs k = [ResultEntry r]"
    using assms(2) t r
    by (cases out; cases "saveTranscription e s1 r (the out)";
        cases "fst (saveTranscription e s1 r (the out))")
       (auto simp: save_throws_at_def iteration_entries_def processAudioDirectory_step_def
                   Let_def)
  then show ?thesis using ok by blast
qed

lemma iteration_entries_save_throws:
  assumes "transcribeFile e (state_before e d opts (Some out) s fs k)
             (path_join [d, fs ! k]) opts = (Inr r, s1)"
    and "out \<noteq> []"
    and "saveTranscription e s1 r out = (Inl msg, s2)"
  shows "iteration_entries e d opts (Some out) s fs k =
           [ResultEntry r,
            failure_entry msg (fs ! k) (path_join [d, fs ! k]) (toISOString e (clock s2))]"
  using assms
  by (simp add: iteration_entries_def processAudioDirectory_step_def Let_def new_Date_def)

lemma length_concat_ge:
  "(\<And>x. x \<in> set xs \<Longrightarrow> 1 \<le> length (f x)) \<Longrightarrow> length xs \<le> length (concat (map f xs))"
proof (induction xs)
  case Nil
  show ?case by simp
next
  case (Cons a xs)
  have "1 \<le> length (f a)" using Cons.prems by simp
  moreover have "length xs \<le> length (concat (map f xs))" using Cons by simp
  ultimately show ?case by simp
qed

lemma filter_upt_eq: "k < n \<Longrightarrow> filter (\<lambda>i. i = k) [0..<n] = [k]"
  by (induction n) (auto simp: less_Suc_eq)

lemma filter_upt_neq_length: "k < n \<Longrightarrow> length (filter (\<lambda>i. i \<noteq> k) [0..<n]) = n - 1"
  using sum_length_filter_compl [of "\<lambda>i. i = k" "[0..<n]"] filter_upt_eq [of k n]
  by simp

lemma concat_singletons:
  "(\<And>x. x \<in> set xs \<Longrightarrow> f x = [g x]) \<Longrightarrow> concat (map f xs) = map g xs"
  by (induction xs) simp_all

lemma upt_split_at:
  "k < n \<Longrightarrow> [0..<n] = [0..<k] @ [k] @ [Suc k..<n]"
  by (metis Suc_leI append_Cons append_Nil le0 upt_add_eq_append upt_conv_Cons
            le_add_diff_inverse less_imp_le_nat)

text \<open>
  Isolation of a failed transcription: when the transcription of exactly one file
  throws and no transcript fails to be saved, the report has one entry per file, in
  the order of the files, and its only failure record is at the position of that file.
\<close>

lemma failed_transcription_is_isolated:
  assumes readdir: "fs_readdir e s d = Inr listing"
    and k: "k < length (audioFiles_of listing)"
    and throws: "transcription_throws_at e d opts out s (audioFiles_of listing) k"
    and others: "\<forall>i < length (audioFiles_of listing).
                   i \<noteq> k \<longrightarrow> \<not> transcription_throws_at e d opts out s (audioFiles_of listing) i"
    and saves: "\<forall>i < length (audioFiles_of listing).
                   \<not> save_throws_at e d opts out s (audioFiles_of listing) i"
  shows "\<exists>report. fst (processAudioDirectory e s d opts out) = Inr report
           \<and> length report = length (audioFiles_of listing)
           \<and> (\<forall>i < length report. entry_success (report ! i) = (i \<noteq> k))
           \<and> (\<exists>fr. report ! k = FailureEntry fr
                  \<and> failure_metadata.fileName (failure_record.metadata fr)
                      = audioFiles_of listing ! k)
           \<and> errorCount report = 1
           \<and> successCount report + errorCount report = length (audioFiles_of listing)"
proof -
  define fs where "fs = audioFiles_of listing"
  define g where "g = (\<lambda>i. hd (iteration_entries e d opts out s fs i))"
  define report where "report = map g [0..<length fs]"
  have single: "iteration_entries e d opts out s fs i = [g i]" if "i < length fs" for i
  proof (cases "i = k")
    case True
    then show ?thesis
      using iteration_entries_transcription_throws [OF throws] by (auto simp: g_def fs_def)
  next
    case False
    then have "\<not> transcription_throws_at e d opts out s fs i"
      and "\<not> save_throws_at e d opts out s fs i"
      using that others saves by (simp_all add: fs_def)
    from iteration_entries_ok [OF this] show ?thesis by (auto simp: g_def)
  qed
  have "concat (map (iteration_entries e d opts out s fs) [0..<length fs]) = map g [0..<length fs]"
    by (rule concat_singletons) (simp add: single)
  then have rep: "fst (processAudioDirectory e s d opts out) = Inr report"
    using processAudioDirectory_report [OF readdir, of opts out] by (simp add: fs_def report_def)
  have len: "length report = length fs" by (simp add: report_def)
  have nth: "report ! i = g i" if "i < length fs" for i
    using that by (simp add: report_def)
  have at_k: "\<exists>fr. g k = FailureEntry fr \<and> \<not> failure_record.success fr
                \<and> failure_metadata.fileName (failure_record.metadata fr) = fs ! k"
    using iteration_entries_transcription_throws [OF throws] by (auto simp: g_def fs_def)
  have succ: "entry_success (g i) = (i \<noteq> k)" if "i < length fs" for i
  proof (cases "i = k")
    case True
    then show ?thesis using at_k by auto
  next
    case False
    then have "\<not> transcription_throws_at e d opts out s fs i"
      and "\<not> save_throws_at e d opts out s fs i"
      using that others saves by (simp_all add: fs_def)
    from iteration_entries_ok [OF this] show ?thesis using False by (auto simp: g_def)
  qed
  have "filter (\<lambda>r. \<not> entry_success r) report
          = map g (filter (\<lambda>i. \<not> entry_success (g i)) [0..<length fs])"
    by (simp add: report_def filter_map comp_def)
  also have "filter (\<lambda>i. \<not> entry_success (g i)) [0..<length fs]
          = filter (\<lambda>i. i = k) [0..<length fs]"
    by (rule filter_cong) (simp_all add: succ)
  also have "\<dots> = [k]" using k by (simp add: filter_upt_eq fs_def)
  finally have err: "errorCount report = 1" by (simp add: errorCount_def)
  have total: "successCount report + errorCount report = length fs"
    using sum_length_filter_compl [of entry_success report]
    by (simp add: successCount_def errorCount_def len)
  show ?thesis
    using rep len nth succ at_k err total k
    by (intro exI [of _ report]) (auto simp: fs_def)
qed

lemma pair_collapse_Inr: "\<not> isl (fst x) \<Longrightarrow> x = (Inr (projr (fst x)), snd x)"
  by (cases x; cases "fst x") simp_all

lemma pair_collapse_Inl: "isl (fst x) \<Longrightarrow> x = (Inl (projl (fst x)), snd x)"
  by (cases x; cases "fst x") simp_all

lemma state_before_0: "state_before e d opts out s fs 0 = s"
  by (simp add: state_before_def)

text \<open>
  The isolation lemma on a concrete directory: the remote service rejects \<^verbatim>\<open>b.mp3\<close>, the
  second of the two audio files; the report has two entries, and the second is the
  failure record of \<^verbatim>\<open>b.mp3\<close>.
\<close>

lemma failed_transcription_is_isolated_example:
  "\<exists>report. fst (processAudioDirectory env_remote_fails s_audio ''audios'' no_options
                    (Some ''texts'')) = Inr report
      \<and> length report = 2
      \<and> entry_success (report ! 0) \<and> \<not> entry_success (report ! 1)
      \<and> (\<exists>fr. report ! 1 = FailureEntry fr
             \<and> failure_metadata.fileName (failure_record.metadata fr) = ''b.mp3'')
      \<and> errorCount report = 1
      \<and> successCount report + errorCount report = 2"
proof -
  have h1: "fs_readdir env_remote_fails s_audio ''audios''
              = Inr [''a.mp3'', ''notes.txt'', ''b.mp3'']"
    by (simp add: env_remote_fails_def env_ok_def)
  have fs: "audioFiles_of [''a.mp3'', ''notes.txt'', ''b.mp3''] = [''a.mp3'', ''b.mp3'']"
    by code_simp
  have h2: "1 < length (audioFiles_of [''a.mp3'', ''notes.txt'', ''b.mp3''])"
    by (simp add: fs)
  have t0: "\<not> transcription_throws_at env_remote_fails ''audios'' no_options (Some ''texts'')
               s_audio [''a.mp3'', ''b.mp3''] 0"
    and t1: "transcription_throws_at env_remote_fails ''audios'' no_options (Some ''texts'')
               s_audio [''a.mp3'', ''b.mp3''] 1"
    and s0: "\<not> save_throws_at env_remote_fails ''audios'' no_options (Some ''texts'')
               s_audio [''a.mp3'', ''b.mp3''] 0"
    and s1: "\<not> save_throws_at env_remote_fails ''audios'' no_options (Some ''texts'')
               s_audio [''a.mp3'', ''b.mp3''] 1"
    by code_simp+
  have others: "\<forall>i < length (audioFiles_of [''a.mp3'', ''notes.txt'', ''b.mp3'']).
                  i \<noteq> 1 \<longrightarrow> \<not> transcription_throws_at env_remote_fails ''audios'' no_options
                                  (Some ''texts'') s_audio
                                  (audioFiles_of [''a.mp3'', ''notes.txt'', ''b.mp3'']) i"
    using t0 by (simp add: fs less_Suc_eq numeral_2_eq_2)
  have saves: "\<forall>i < length (audioFiles_of [''a.mp3'', ''notes.txt'', ''b.mp3'']).
                  \<not> save_throws_at env_remote_fails ''audios'' no_options (Some ''texts'') s_audio
                      (audioFiles_of [''a.mp3'', ''notes.txt'', ''b.mp3'']) i"
    using s0 s1 by (simp add: fs less_Suc_eq numeral_2_eq_2)
  have throws: "transcription_throws_at env_remote_fails ''audios'' no_options (Some ''texts'')
                  s_audio (audioFiles_of [''a.mp3'', ''notes.txt'', ''b.mp3'']) 1"
    using t1 by (simp add: fs)
  from failed_transcription_is_isolated [OF h1 h2 throws others saves]
  obtain report fr where
    rep: "fst (processAudioDirectory env_remote_fails s_audio ''audios'' no_options
                 (Some ''texts'')) = Inr report"
    and len: "length report = 2"
    and all: "\<forall>i < length report. entry_success (report ! i) = (i \<noteq> 1)"
    and at: "report ! 1 = FailureEntry fr"
            "failure_metadata.fileName (failure_record.metadata fr) = ''b.mp3''"
    and cnt: "errorCount report = 1" "successCount report + errorCount report = 2"
    by (auto simp: fs)
  have "entry_success (report ! 0)" and "\<not> entry_success (report ! 1)"
    using all len by simp_all
  then show ?thesis using rep len at cnt by blast
qed

section \<open>Saving a transcript\<close>

lemma translateFile_has_no_transcription:
  "fst (translateFile e s p opts) = Inr r \<Longrightarrow> transcription r = JUndefined"
  by (auto simp: translateFile_def translateFile_try_def Let_def new_Date_def
           split: prod.splits sum.splits option.splits if_splits)

lemma saveTranscription_throws_without_transcription:
  "transcription r = JUndefined \<Longrightarrow> isl (fst (saveTranscription e s r d))"
  by (simp add: saveTranscription_def saveTranscription_try_def transcription_content_def Let_def
           split: option.splits)

lemma transcription_content_ok:
  "v \<noteq> JUndefined \<Longrightarrow> v \<noteq> JNull \<Longrightarrow> \<not> isl (transcription_content e v)"
  by (cases v) (simp_all add: transcription_content_def)

lemma transcription_content_cases:
  "transcription_content e (JStr t) = Inr (JStr t)"
  "truthy x \<Longrightarrow> map_of kvs ''text'' = Some x \<Longrightarrow> transcription_content e (JObj kvs) = Inr x"
  "map_of kvs ''text'' = None \<Longrightarrow>
     transcription_content e (JObj kvs) = Inr (JStr (JSON_stringify e (JObj kvs)))"
  by (simp_all add: transcription_content_def)

text \<open>
  With a payload that is neither \<^verbatim>\<open>undefined\<close> nor \<^verbatim>\<open>null\<close>, \<^verbatim>\<open>saveTranscription\<close> throws only
  when the file system does.
\<close>

lemma saveTranscription_ok:
  assumes "transcription r \<noteq> JUndefined" and "transcription r \<noteq> JNull"
    and "fs_mkdir e s d = None"
    and "\<forall>p c. fs_writeFile e (s\<lparr>files := insert d (files s)\<rparr>) p c = None"
  shows "\<not> isl (fst (saveTranscription e s r d))"
  using assms transcription_content_ok [OF assms(1,2), of e]
  by (cases "transcription_content e (transcription r)")
     (simp_all add: saveTranscription_def saveTranscription_try_def Let_def)

section \<open>The request that reaches the remote service\<close>

lemma transcriptionParams_file_model:
  "file_stream (transcriptionParams m a opts) = a"
  "request_params.model (transcriptionParams m a opts) = m"
  by (simp_all add: transcriptionParams_def Let_def)

lemma translationParams_file:
  "file_stream (translationParams m a opts) = a"
  by (simp add: translationParams_def Let_def)

text \<open>
  When the input exists and, if a conversion is needed, the converter ends,
  \<^verbatim>\<open>processAudioFile\<close> hands over the processed path.
\<close>

lemma processAudioFile_ready:
  assumes "needsConversion p \<longrightarrow>
             p \<in> files s \<and> ffmpeg e s (ffmpeg_job p (convertOpusToMp4_outputPath p)) = FfmpegEnd"
  shows "\<exists>c. processAudioFile e s p = (Inr c, snd (processAudioFile e s p))
           \<and> conversion_result.success c
           \<and> processedPath c = Some (if needsConversion p then convertOpusToMp4_outputPath p else p)
           \<and> conversion_result.wasConverted c = needsConversion p"
proof (cases "needsConversion p")
  case True
  then show ?thesis using assms by (simp add: processAudioFile_converted)
next
  case False
  then show ?thesis by (simp add: processAudioFile_compatible)
qed

text \<open>
  Then the outcome of \<^verbatim>\<open>transcribeFile\<close> is decided by the answer of the service to one
  request, the one built from the configured model, the processed path and the options:
  an error of the service is rethrown with the prefix of the method, and a payload is
  returned as the \<^verbatim>\<open>transcription\<close> of the result.
\<close>

lemma transcribeFile_sends:
  assumes "p \<in> files s"
    and "needsConversion p \<longrightarrow>
           ffmpeg e s (ffmpeg_job p (convertOpusToMp4_outputPath p)) = FfmpegEnd"
  shows "case transcriptions_create e (snd (processAudioFile e s p))
                (transcriptionParams (this_model s)
                   (if needsConversion p then convertOpusToMp4_outputPath p else p) opts) of
           Inl msg \<Rightarrow>
             transcribeFile e s p opts
               = (Inl (''Error al transcribir el archivo: '' @ msg), snd (processAudioFile e s p))
         | Inr payload \<Rightarrow>
             (\<exists>r. transcribeFile e s p opts
                     = (Inr r, (snd (processAudioFile e s p))
                                 \<lparr>clock := Suc (clock (snd (processAudioFile e s p)))\<rparr>)
                 \<and> transcription r = payload
                 \<and> processedFilePath (transcription_result.metadata r)
                     = (if needsConversion p then convertOpusToMp4_outputPath p else p)
                 \<and> metadata.fileName (transcription_result.metadata r)
                     = path_basename (if needsConversion p then convertOpusToMp4_outputPath p else p)
                 \<and> metadata.model (transcription_result.metadata r) = this_model s)"
proof -
  define s1 where "s1 = snd (processAudioFile e s p)"
  define q where "q = (if needsConversion p then convertOpusToMp4_outputPath p else p)"
  obtain c where c: "processAudioFile e s p = (Inr c, s1)" "conversion_result.success c"
      "processedPath c = Some q"
    using processAudioFile_ready [of p s e] assms by (auto simp: s1_def q_def)
  have m: "this_model s1 = this_model s"
    unfolding s1_def by (rule processAudioFile_this_model)
  show ?thesis
    unfolding s1_def [symmetric] q_def [symmetric]
    using assms(1) c m
    by (cases "transcriptions_create e s1 (transcriptionParams (this_model s) q opts)")
       (simp_all add: transcribeFile_def transcribeFile_try_def fs_access_def Let_def new_Date_def)
qed

lemma translateFile_sends:
  assumes "p \<in> files s"
    and "needsConversion p \<longrightarrow>
           ffmpeg e s (ffmpeg_job p (convertOpusToMp4_outputPath p)) = FfmpegEnd"
  shows "case translations_create e (snd (processAudioFile e s p))
                (translationParams (this_model s)
                   (if needsConversion p then convertOpusToMp4_outputPath p else p) opts) of
           Inl msg \<Rightarrow>
             translateFile e s p opts
               = (Inl (''Error al traducir el archivo: '' @ msg), snd (processAudioFile e s p))
         | Inr payload \<Rightarrow>
             (\<exists>r. translateFile e s p opts
                     = (Inr r, (snd (processAudioFile e s p))
                                 \<lparr>clock := Suc (clock (snd (processAudioFile e s p)))\<rparr>)
                 \<and> translation r = payload
                 \<and> processedFilePath (transcription_result.metadata r)
                     = (if needsConversion p then convertOpusToMp4_outputPath p else p)
                 \<and> metadata.model (transcription_result.metadata r)
                     = request_params.model
                         (translationParams (this_model s)
                            (if needsConversion p then convertOpusToMp4_outputPath p else p) opts))"
proof -
  define s1 where "s1 = snd (processAudioFile e s p)"
  define q where "q = (if needsConversion p then convertOpusToMp4_outputPath p else p)"
  obtain c where c: "processAudioFile e s p = (Inr c, s1)" "conversion_result.success c"
      "processedPath c = Some q"
    using processAudioFile_ready [of p s e] assms by (auto simp: s1_def q_def)
  have m: "this_model s1 = this_model s"
    unfolding s1_def by (rule processAudioFile_this_model)
  show ?thesis
    unfolding s1_def [symmetric] q_def [symmetric]
    using assms(1) c m
    by (cases "translations_create e s1 (translationParams (this_model s) q opts)")
       (simp_all add: translateFile_def translateFile_try_def fs_access_def Let_def new_Date_def)
qed

text \<open>
  Conversely, the payload of a returned result is the answer of the service to the
  request on the processed file.
\<close>

lemma transcribeFile_payload:
  assumes "fst (transcribeFile e s p opts) = Inr r"
  shows "transcriptions_create e (snd (processAudioFile e s p))
           (transcriptionParams (this_model s)
              (processedFilePath (transcription_result.metadata r)) opts)
           = Inr (transcription r)"
  using assms processAudioFile_this_model [of e s p]
  by (auto simp: transcribeFile_def transcribeFile_try_def Let_def new_Date_def
           split: option.splits prod.splits sum.splits if_splits)

lemma echo_answers:
  "transcriptions_create env_echo s req = Inr (echo req)"
  "translations_create env_echo s req = Inr (echo req)"
  "ffmpeg env_echo = ffmpeg env_ok"
  by (simp_all add: env_echo_def)

section \<open>The claims\<close>

subsection \<open>The file name in the metadata of a transcription\<close>

text \<open>
  Claim C1, as amended. The \<^verbatim>\<open>metadata.fileName\<close> of a result of \<^verbatim>\<open>transcribeFile\<close> is
  the base name of the processed file, the one sent to the remote service: the base
  name of the input when no conversion was needed, and the base name of the converted
  file when \<^verbatim>\<open>wasConverted\<close> is true. The path of the input is kept in
  \<^verbatim>\<open>metadata.originalFilePath\<close>. The processed file is the file of the request: the
  payload of a result is the answer of \<^verbatim>\<open>transcriptions.create\<close> to the request whose
  file is \<^verbatim>\<open>metadata.processedFilePath\<close>; and whenever the input exists and its
  conversion, if one is needed, ends, \<^verbatim>\<open>transcribeFile\<close> calls the service with the
  request on the processed file, rethrows its error or returns its payload, and then
  \<^verbatim>\<open>metadata.fileName\<close> is the base name of the file of that request.
\<close>

theorem transcribeFile_fileName_is_processed_base_name:
  "(fst (transcribeFile e s p opts) = Inr r \<longrightarrow>
       metadata.fileName (transcription_result.metadata r)
           = path_basename (processedFilePath (transcription_result.metadata r))
       \<and> originalFilePath (transcription_result.metadata r) = p
       \<and> metadata.wasConverted (transcription_result.metadata r) = needsConversion p
       \<and> (\<not> needsConversion p \<longrightarrow>
             processedFilePath (transcription_result.metadata r) = p
             \<and> metadata.fileName (transcription_result.metadata r) = path_basename p)
       \<and> (needsConversion p \<longrightarrow>
             processedFilePath (transcription_result.metadata r) = convertOpusToMp4_outputPath p
             \<and> metadata.fileName (transcription_result.metadata r)
                 = path_basename_ext p ''.opus'' @ ''.mp4'')
       \<and> file_stream (transcriptionParams (this_model s)
                        (processedFilePath (transcription_result.metadata r)) opts)
           = processedFilePath (transcription_result.metadata r)
       \<and> transcriptions_create e (snd (processAudioFile e s p))
             (transcriptionParams (this_model s)
                (processedFilePath (transcription_result.metadata r)) opts)
           = Inr (transcription r))
   \<and> (p \<in> files s
        \<and> (needsConversion p \<longrightarrow>
              ffmpeg e s (ffmpeg_job p (convertOpusToMp4_outputPath p)) = FfmpegEnd)
        \<longrightarrow>
          file_stream (transcriptionParams (this_model s)
                         (if needsConversion p then convertOpusToMp4_outputPath p else p) opts)
            = (if needsConversion p then convertOpusToMp4_outputPath p else p)
          \<and> (case transcriptions_create e (snd (processAudioFile e s p))
                     (transcriptionParams (this_model s)
                        (if needsConversion p then convertOpusToMp4_outputPath p else p) opts) of
                Inl msg \<Rightarrow>
                  transcribeFile e s p opts
                    = (Inl (''Error al transcribir el archivo: '' @ msg),
                       snd (processAudioFile e s p))
              | Inr payload \<Rightarrow>
                  (\<exists>r'. transcribeFile e s p opts
                          = (Inr r', (snd (processAudioFile e s p))
                                       \<lparr>clock := Suc (clock (snd (processAudioFile e s p)))\<rparr>)
                      \<and> transcription r' = payload
                      \<and> processedFilePath (transcription_result.metadata r')
                          = (if needsConversion p then convertOpusToMp4_outputPath p else p)
                      \<and> metadata.fileName (transcription_result.metadata r')
                          = path_basename
                              (if needsConversion p then convertOpusToMp4_outputPath p else p))))"
proof -
  have returned:
      "metadata.fileName (transcription_result.metadata r)
           = path_basename (processedFilePath (transcription_result.metadata r))
       \<and> originalFilePath (transcription_result.metadata r) = p
       \<and> metadata.wasConverted (transcription_result.metadata r) = needsConversion p
       \<and> (\<not> needsConversion p \<longrightarrow>
             processedFilePath (transcription_result.metadata r) = p
             \<and> metadata.fileName (transcription_result.metadata r) = path_basename p)
       \<and> (needsConversion p \<longrightarrow>
             processedFilePath (transcription_result.metadata r) = convertOpusToMp4_outputPath p
             \<and> metadata.fileName (transcription_result.metadata r)
                 = path_basename_ext p ''.opus'' @ ''.mp4'')"
    if ok: "fst (transcribeFile e s p opts) = Inr r"
  proof -
    obtain c where c: "fst (processAudioFile e s p) = Inr c" "conversion_result.success c"
        "processedPath c = Some (processedFilePath (transcription_result.metadata r))"
        "metadata.wasConverted (transcription_result.metadata r) = conversion_result.wasConverted c"
        "metadata.fileName (transcription_result.metadata r)
                 = path_basename (processedFilePath (transcription_result.metadata r))"
        "originalFilePath (transcription_result.metadata r) = p"
      using transcribeFile_metadata [OF ok] by blast
    from processAudioFile_success [OF c(1,2)]
    have conv: "conversion_result.wasConverted c = needsConversion p"
      and path: "processedPath c = Some (if needsConversion p then convertOpusToMp4_outputPath p else p)"
      by simp_all
    have pp: "processedFilePath (transcription_result.metadata r)
                = (if needsConversion p then convertOpusToMp4_outputPath p else p)"
      using c(3) path by simp
    show ?thesis
      using c(4,5,6) conv pp outputPath_basename [of p] by simp
  qed
  have answered:
      "transcriptions_create e (snd (processAudioFile e s p))
             (transcriptionParams (this_model s)
                (processedFilePath (transcription_result.metadata r)) opts)
           = Inr (transcription r)"
    if ok: "fst (transcribeFile e s p opts) = Inr r"
    using ok by (rule transcribeFile_payload)
  have sent:
      "case transcriptions_create e (snd (processAudioFile e s p))
                     (transcriptionParams (this_model s)
                        (if needsConversion p then convertOpusToMp4_outputPath p else p) opts) of
                Inl msg \<Rightarrow>
                  transcribeFile e s p opts
                    = (Inl (''Error al transcribir el archivo: '' @ msg),
                       snd (processAudioFile e s p))
              | Inr payload \<Rightarrow>
                  (\<exists>r'. transcribeFile e s p opts
                          = (Inr r', (snd (processAudioFile e s p))
                                       \<lparr>clock := Suc (clock (snd (processAudioFile e s p)))\<rparr>)
                      \<and> transcription r' = payload
                      \<and> processedFilePath (transcription_result.metadata r')
                          = (if needsConversion p then convertOpusToMp4_outputPath p else p)
                      \<and> metadata.fileName (transcription_result.metadata r')
                          = path_basename
                              (if needsConversion p then convertOpusToMp4_outputPath p else p))"
    if "p \<in> files s"
      and "needsConversion p \<longrightarrow>
              ffmpeg e s (ffmpeg_job p (convertOpusToMp4_outputPath p)) = FfmpegEnd"
    using transcribeFile_sends [OF that, of opts]
    by (cases "transcriptions_create e (snd (processAudioFile e s p))
                 (transcriptionParams (this_model s)
                    (if needsConversion p then convertOpusToMp4_outputPath p else p) opts)")
       auto
  from returned answered sent show ?thesis
    by (simp only: transcriptionParams_file_model) blast
qed

text \<open>
  Counterexample to claim C1 as stated, on \<^verbatim>\<open>voice.opus\<close>: the result is converted and its
  \<^verbatim>\<open>fileName\<close> is \<^verbatim>\<open>voice.mp4\<close>, while the base name of the input is \<^verbatim>\<open>voice.opus\<close>.
\<close>

theorem transcribeFile_fileName_counterexample:
  "\<not> isl (fst (transcribeFile env_ok s_audio ''voice.opus'' no_options))
   \<and> metadata.fileName (transcription_result.metadata
        (projr (fst (transcribeFile env_ok s_audio ''voice.opus'' no_options)))) = ''voice.mp4''
   \<and> metadata.wasConverted (transcription_result.metadata
        (projr (fst (transcribeFile env_ok s_audio ''voice.opus'' no_options))))
   \<and> path_basename ''voice.opus'' = ''voice.opus''"
  by code_simp

text \<open>
  Witness for claim C1 as amended: the same call, and a file that needs no conversion.
  With a service that answers with the request it received (\<open>env_echo\<close>), the
  transcription of \<^verbatim>\<open>voice.opus\<close> shows the file \<^verbatim>\<open>voice.mp4\<close> in the request, and the
  \<^verbatim>\<open>fileName\<close> of the result is \<^verbatim>\<open>voice.mp4\<close>.
\<close>

theorem transcribeFile_fileName_witness:
  "(\<exists>r. fst (transcribeFile env_ok s_audio ''voice.opus'' no_options) = Inr r
        \<and> needsConversion ''voice.opus''
        \<and> metadata.fileName (transcription_result.metadata r)
            = path_basename_ext ''voice.opus'' ''.opus'' @ ''.mp4''
        \<and> metadata.wasConverted (transcription_result.metadata r))
   \<and> (\<exists>r. fst (transcribeFile env_ok s_audio ''audios/a.mp3'' no_options) = Inr r
        \<and> \<not> needsConversion ''audios/a.mp3''
        \<and> metadata.fileName (transcription_result.metadata r) = path_basename ''audios/a.mp3''
        \<and> \<not> metadata.wasConverted (transcription_result.metadata r))
   \<and> ''voice.opus'' \<in> files s_audio
   \<and> ffmpeg env_echo s_audio (ffmpeg_job ''voice.opus'' (convertOpusToMp4_outputPath ''voice.opus''))
       = FfmpegEnd
   \<and> (\<exists>r. fst (transcribeFile env_echo s_audio ''voice.opus'' no_options) = Inr r
        \<and> transcription r
            = JObj [(''file'', JStr ''voice.mp4''),
                    (''model'', JStr ''whisper-large-v3-turbo''),
                    (''timestamp_granularities'', JArr [JStr ''segment''])]
        \<and> processedFilePath (transcription_result.metadata r) = ''voice.mp4''
        \<and> metadata.fileName (transcription_result.metadata r) = ''voice.mp4'')"
proof -
  have n1: "needsConversion ''voice.opus''" by code_simp
  have n2: "\<not> needsConversion ''audios/a.mp3''" by code_simp
  have "\<not> isl (fst (transcribeFile env_ok s_audio ''voice.opus'' no_options))" by code_simp
  then obtain r1 where r1: "fst (transcribeFile env_ok s_audio ''voice.opus'' no_options) = Inr r1"
    using not_isl_Inr by blast
  have "\<not> isl (fst (transcribeFile env_ok s_audio ''audios/a.mp3'' no_options))" by code_simp
  then obtain r2 where r2: "fst (transcribeFile env_ok s_audio ''audios/a.mp3'' no_options) = Inr r2"
    using not_isl_Inr by blast
  have f1: "''voice.opus'' \<in> files s_audio" by (simp add: s_audio_def)
  have c1: "ffmpeg env_echo s_audio
              (ffmpeg_job ''voice.opus'' (convertOpusToMp4_outputPath ''voice.opus'')) = FfmpegEnd"
    by (simp add: echo_answers env_ok_def)
  have o1: "convertOpusToMp4_outputPath ''voice.opus'' = ''voice.mp4''" by code_simp
  have b1: "path_basename ''voice.mp4'' = ''voice.mp4''" by code_simp
  have e1: "echo (transcriptionParams (this_model s_audio) ''voice.mp4'' no_options)
              = JObj [(''file'', JStr ''voice.mp4''),
                      (''model'', JStr ''whisper-large-v3-turbo''),
                      (''timestamp_granularities'', JArr [JStr ''segment''])]"
    by code_simp
  from transcribeFile_fileName_is_processed_base_name
         [of env_ok s_audio "''voice.opus''" no_options r1] r1 n1
  have "metadata.fileName (transcription_result.metadata r1)
            = path_basename_ext ''voice.opus'' ''.opus'' @ ''.mp4''
        \<and> metadata.wasConverted (transcription_result.metadata r1)"
    by blast
  moreover from transcribeFile_fileName_is_processed_base_name
         [of env_ok s_audio "''audios/a.mp3''" no_options r2] r2 n2
  have "metadata.fileName (transcription_result.metadata r2) = path_basename ''audios/a.mp3''
        \<and> \<not> metadata.wasConverted (transcription_result.metadata r2)"
    by blast
  moreover from transcribeFile_fileName_is_processed_base_name
         [of env_echo s_audio "''voice.opus''" no_options r1] f1 n1 c1
  have "\<exists>r. fst (transcribeFile env_echo s_audio ''voice.opus'' no_options) = Inr r
        \<and> transcription r
            = JObj [(''file'', JStr ''voice.mp4''),
                    (''model'', JStr ''whisper-large-v3-turbo''),
                    (''timestamp_granularities'', JArr [JStr ''segment''])]
        \<and> processedFilePath (transcription_result.metadata r) = ''voice.mp4''
        \<and> metadata.fileName (transcription_result.metadata r) = ''voice.mp4''"
    by (auto simp: echo_answers o1 b1 e1)
  ultimately show ?thesis using r1 r2 n1 n2 f1 c1 by blast
qed

subsection \<open>One entry per file\<close>

text \<open>
  Claim C2 says that when the processing of exactly one of the \<open>N\<close> audio files of a
  directory fails, the report has \<open>N\<close> entries and its one failure record is at the
  position of that file. The code breaks it when what fails is the saving of the
  transcript: the result was pushed before, and the failure record is pushed after it.
  Here the directory has the two audio files \<^verbatim>\<open>a.mp3\<close> and \<^verbatim>\<open>b.mp3\<close>, only the processing
  of \<^verbatim>\<open>a.mp3\<close> (position 0) fails, and the report has three entries, with the failure
  record at position 1 and the counts adding up to three.
  (\<open>failed_transcription_is_isolated\<close> is the part of the claim that holds: a failure of
  the transcription itself.)
\<close>

theorem processAudioDirectory_pushes_success_and_failure_for_one_file:
  "fs_readdir env_write_fails s_audio ''audios'' = Inr [''a.mp3'', ''notes.txt'', ''b.mp3'']
   \<and> audioFiles_of [''a.mp3'', ''notes.txt'', ''b.mp3''] = [''a.mp3'', ''b.mp3'']
   \<and> save_throws_at env_write_fails ''audios'' no_options (Some ''texts'') s_audio
        [''a.mp3'', ''b.mp3''] 0
   \<and> \<not> transcription_throws_at env_write_fails ''audios'' no_options (Some ''texts'') s_audio
          [''a.mp3'', ''b.mp3''] 0
   \<and> \<not> save_throws_at env_write_fails ''audios'' no_options (Some ''texts'') s_audio
          [''a.mp3'', ''b.mp3''] 1
   \<and> \<not> transcription_throws_at env_write_fails ''audios'' no_options (Some ''texts'') s_audio
          [''a.mp3'', ''b.mp3''] 1
   \<and> \<not> isl (fst (processAudioDirectory env_write_fails s_audio ''audios'' no_options
                    (Some ''texts'')))
   \<and> map entry_success
         (projr (fst (processAudioDirectory env_write_fails s_audio ''audios'' no_options
                        (Some ''texts''))))
       = [True, False, True]
   \<and> length (projr (fst (processAudioDirectory env_write_fails s_audio ''audios'' no_options
                           (Some ''texts'')))) = 3
   \<and> successCount (projr (fst (processAudioDirectory env_write_fails s_audio ''audios''
                                 no_options (Some ''texts''))))
       + errorCount (projr (fst (processAudioDirectory env_write_fails s_audio ''audios''
                                   no_options (Some ''texts'')))) = 3"
  by code_simp

subsection \<open>What \<^verbatim>\<open>processAudioFile\<close> returns\<close>




subsection \<open>Saving the result of a translation\<close>

text \<open>
  Claim C4 says that \<^verbatim>\<open>saveTranscription\<close> never fails because of the shape of the payload,
  a translation result included. The code breaks it: \<^verbatim>\<open>saveTranscription\<close> reads the
  property \<^verbatim>\<open>transcription\<close>, which a result of \<^verbatim>\<open>translateFile\<close> does not have, and the read
  of \<^verbatim>\<open>.text\<close> on \<^verbatim>\<open>undefined\<close> throws. Here the translation of \<^verbatim>\<open>audios/a.mp3\<close> returns
  \<^verbatim>\<open>{text: 'hello'}\<close>, the file system accepts every write, and saving the result throws
  and writes nothing, while saving the result of the transcription of the same file
  returns \<^verbatim>\<open>texts/a.txt\<close>. (\<open>saveTranscription_throws_without_transcription\<close> and
  \<open>translateFile_has_no_transcription\<close> say so for every translation;
  \<open>saveTranscription_ok\<close> is the part of the claim that holds.)
\<close>

theorem saveTranscription_throws_on_a_translation_result:
  "\<not> isl (fst (translateFile env_ok s_audio ''audios/a.mp3'' no_options))
   \<and> translation (projr (fst (translateFile env_ok s_audio ''audios/a.mp3'' no_options)))
       = JObj [(''text'', JStr ''hello'')]
   \<and> fst (saveTranscription env_ok
             (snd (translateFile env_ok s_audio ''audios/a.mp3'' no_options))
             (projr (fst (translateFile env_ok s_audio ''audios/a.mp3'' no_options)))
             ''texts'')
       = Inl (''Error al guardar transcripci'' @ o_acute
              @ ''n: Cannot read properties of undefined (reading '' @ quote @ ''text'' @ quote
              @ '')'')
   \<and> ''texts/a.txt'' \<notin> files (snd (saveTranscription env_ok
             (snd (translateFile env_ok s_audio ''audios/a.mp3'' no_options))
             (projr (fst (translateFile env_ok s_audio ''audios/a.mp3'' no_options)))
             ''texts''))
   \<and> fst (saveTranscription env_ok
             (snd (transcribeFile env_ok s_audio ''audios/a.mp3'' no_options))
             (projr (fst (transcribeFile env_ok s_audio ''audios/a.mp3'' no_options)))
             ''texts'')
       = Inr ''texts/a.txt''"
  by code_simp

subsection \<open>The model used for a translation\<close>

text \<open>
  Claim C5. When the configured model is \<^verbatim>\<open>whisper-large-v3-turbo\<close>, the request of every
  \<^verbatim>\<open>translateFile\<close> call carries \<^verbatim>\<open>whisper-large-v3\<close>, every result it returns records
  \<^verbatim>\<open>whisper-large-v3\<close> in \<^verbatim>\<open>metadata.model\<close>, the configured model is unchanged after the call
  (whether it returned or threw), and every result of a later \<^verbatim>\<open>transcribeFile\<close> call on
  the same instance records \<^verbatim>\<open>whisper-large-v3-turbo\<close>. The requests are the ones handed
  to the remote service: whenever the input exists and its conversion, if one is needed,
  ends, \<^verbatim>\<open>translateFile\<close> calls \<^verbatim>\<open>translations.create\<close> with a request whose model is
  \<^verbatim>\<open>whisper-large-v3\<close> and its outcome is the answer of the service to that request, and a
  later \<^verbatim>\<open>transcribeFile\<close> on the same instance calls \<^verbatim>\<open>transcriptions.create\<close> with a
  request whose model is \<^verbatim>\<open>whisper-large-v3-turbo\<close> and its outcome is the answer of the
  service to that one.
\<close>

theorem translateFile_substitutes_precise_model_for_the_call_only:
  assumes "this_model s = ''whisper-large-v3-turbo''"
  shows "request_params.model (translationParams (this_model s) a opts) = ''whisper-large-v3''
       \<and> (\<forall>r. fst (translateFile e s p opts) = Inr r
              \<longrightarrow> metadata.model (transcription_result.metadata r) = ''whisper-large-v3'')
       \<and> this_model (snd (translateFile e s p opts)) = ''whisper-large-v3-turbo''
       \<and> (\<forall>p' opts' r'.
             fst (transcribeFile e (snd (translateFile e s p opts)) p' opts') = Inr r'
             \<longrightarrow> metadata.model (transcription_result.metadata r') = ''whisper-large-v3-turbo'')
       \<and> (p \<in> files s
            \<and> (needsConversion p \<longrightarrow>
                  ffmpeg e s (ffmpeg_job p (convertOpusToMp4_outputPath p)) = FfmpegEnd)
            \<longrightarrow>
              request_params.model
                  (translationParams (this_model s)
                     (if needsConversion p then convertOpusToMp4_outputPath p else p) opts)
                = ''whisper-large-v3''
              \<and> (case translations_create e (snd (processAudioFile e s p))
                         (translationParams (this_model s)
                            (if needsConversion p then convertOpusToMp4_outputPath p else p) opts) of
                    Inl msg \<Rightarrow>
                      translateFile e s p opts
                        = (Inl (''Error al traducir el archivo: '' @ msg),
                           snd (processAudioFile e s p))
                  | Inr payload \<Rightarrow>
                      (\<exists>r. translateFile e s p opts
                              = (Inr r, (snd (processAudioFile e s p))
                                          \<lparr>clock := Suc (clock (snd (processAudioFile e s p)))\<rparr>)
                          \<and> translation r = payload
                          \<and> metadata.model (transcription_result.metadata r)
                              = ''whisper-large-v3'')))
       \<and> (\<forall>p' opts'.
             p' \<in> files (snd (translateFile e s p opts))
             \<and> (needsConversion p' \<longrightarrow>
                   ffmpeg e (snd (translateFile e s p opts))
                     (ffmpeg_job p' (convertOpusToMp4_outputPath p')) = FfmpegEnd)
             \<longrightarrow>
               request_params.model
                   (transcriptionParams (this_model (snd (translateFile e s p opts)))
                      (if needsConversion p' then convertOpusToMp4_outputPath p' else p') opts')
                 = ''whisper-large-v3-turbo''
               \<and> (case transcriptions_create e
                          (snd (processAudioFile e (snd (translateFile e s p opts)) p'))
                          (transcriptionParams (this_model (snd (translateFile e s p opts)))
                             (if needsConversion p' then convertOpusToMp4_outputPath p' else p')
                             opts') of
                     Inl msg \<Rightarrow>
                       transcribeFile e (snd (translateFile e s p opts)) p' opts'
                         = (Inl (''Error al transcribir el archivo: '' @ msg),
                            snd (processAudioFile e (snd (translateFile e s p opts)) p'))
                   | Inr payload \<Rightarrow>
                       (\<exists>r'. transcribeFile e (snd (translateFile e s p opts)) p' opts'
                               = (Inr r',
                                  (snd (processAudioFile e (snd (translateFile e s p opts)) p'))
                                    \<lparr>clock := Suc (clock (snd (processAudioFile e
                                                            (snd (translateFile e s p opts)) p')))\<rparr>)
                           \<and> transcription r' = payload
                           \<and> metadata.model (transcription_result.metadata r')
                               = ''whisper-large-v3-turbo'')))"
proof -
  define s' where "s' = snd (translateFile e s p opts)"
  have after: "this_model s' = ''whisper-large-v3-turbo''"
    using assms by (simp add: s'_def translateFile_this_model)
  have req: "request_params.model (translationParams (this_model s) a opts) = ''whisper-large-v3''"
    for a
    using assms by (simp add: translationParams_model)
  have res: "\<forall>r. fst (translateFile e s p opts) = Inr r
              \<longrightarrow> metadata.model (transcription_result.metadata r) = ''whisper-large-v3''"
    using assms translateFile_model [of e s p opts] by simp
  have later: "\<forall>p' opts' r'.
             fst (transcribeFile e s' p' opts') = Inr r'
             \<longrightarrow> metadata.model (transcription_result.metadata r') = ''whisper-large-v3-turbo''"
    using after transcribeFile_model by metis
  have sent: "case translations_create e (snd (processAudioFile e s p))
                         (translationParams (this_model s)
                            (if needsConversion p then convertOpusToMp4_outputPath p else p) opts) of
                    Inl msg \<Rightarrow>
                      translateFile e s p opts
                        = (Inl (''Error al traducir el archivo: '' @ msg),
                           snd (processAudioFile e s p))
                  | Inr payload \<Rightarrow>
                      (\<exists>r. translateFile e s p opts
                              = (Inr r, (snd (processAudioFile e s p))
                                          \<lparr>clock := Suc (clock (snd (processAudioFile e s p)))\<rparr>)
                          \<and> translation r = payload
                          \<and> metadata.model (transcription_result.metadata r)
                              = ''whisper-large-v3'')"
    if "p \<in> files s"
      and "needsConversion p \<longrightarrow>
              ffmpeg e s (ffmpeg_job p (convertOpusToMp4_outputPath p)) = FfmpegEnd"
    using translateFile_sends [OF that, of opts]
    by (cases "translations_create e (snd (processAudioFile e s p))
                 (translationParams (this_model s)
                    (if needsConversion p then convertOpusToMp4_outputPath p else p) opts)")
       (auto simp: req)
  have sent_later: "request_params.model
                   (transcriptionParams (this_model s')
                      (if needsConversion p' then convertOpusToMp4_outputPath p' else p') opts')
                 = ''whisper-large-v3-turbo''
               \<and> (case transcriptions_create e (snd (processAudioFile e s' p'))
                          (transcriptionParams (this_model s')
                             (if needsConversion p' then convertOpusToMp4_outputPath p' else p')
                             opts') of
                     Inl msg \<Rightarrow>
                       transcribeFile e s' p' opts'
                         = (Inl (''Error al transcribir el archivo: '' @ msg),
                            snd (processAudioFile e s' p'))
                   | Inr payload \<Rightarrow>
                       (\<exists>r'. transcribeFile e s' p' opts'
                               = (Inr r',
                                  (snd (processAudioFile e s' p'))
                                    \<lparr>clock := Suc (clock (snd (processAudioFile e s' p')))\<rparr>)
                           \<and> transcription r' = payload
                           \<and> metadata.model (transcription_result.metadata r')
                               = ''whisper-large-v3-turbo''))"
    if "p' \<in> files s'"
      and "needsConversion p' \<longrightarrow>
              ffmpeg e s' (ffmpeg_job p' (convertOpusToMp4_outputPath p')) = FfmpegEnd"
    for p' opts'
    using transcribeFile_sends [OF that, of opts']
    by (cases "transcriptions_create e (snd (processAudioFile e s' p'))
                 (transcriptionParams (this_model s')
                    (if needsConversion p' then convertOpusToMp4_outputPath p' else p') opts')")
       (auto simp: after transcriptionParams_file_model)
  from req [of a] req res after later sent sent_later show ?thesis
    unfolding s'_def by blast
qed

text \<open>
  Witness for claim C5: the hypothesis holds in the scenario \<open>s_audio\<close>, where the translation of an existing
  file returns a result and so does the transcription that follows it. With a service
  that answers with the request it received (\<open>env_echo\<close>), the translation of
  \<^verbatim>\<open>voice.opus\<close> shows the model \<^verbatim>\<open>whisper-large-v3\<close> in the request on \<^verbatim>\<open>voice.mp4\<close>, and
  the transcription of \<^verbatim>\<open>audios/a.mp3\<close> that follows shows \<^verbatim>\<open>whisper-large-v3-turbo\<close>.
\<close>

theorem translateFile_substitutes_precise_model_witness:
  "this_model s_audio = ''whisper-large-v3-turbo''
   \<and> (\<exists>r. fst (translateFile env_ok s_audio ''audios/a.mp3'' no_options) = Inr r
          \<and> metadata.model (transcription_result.metadata r) = ''whisper-large-v3'')
   \<and> this_model (snd (translateFile env_ok s_audio ''audios/a.mp3'' no_options))
        = ''whisper-large-v3-turbo''
   \<and> (\<exists>r'. fst (transcribeFile env_ok
                    (snd (translateFile env_ok s_audio ''audios/a.mp3'' no_options))
                    ''voice.opus'' no_options) = Inr r'
          \<and> metadata.model (transcription_result.metadata r') = ''whisper-large-v3-turbo'')
   \<and> ''voice.opus'' \<in> files s_audio \<and> needsConversion ''voice.opus''
   \<and> ffmpeg env_echo s_audio (ffmpeg_job ''voice.opus'' (convertOpusToMp4_outputPath ''voice.opus''))
       = FfmpegEnd
   \<and> (\<exists>r. fst (translateFile env_echo s_audio ''voice.opus'' no_options) = Inr r
          \<and> translation r
              = JObj [(''file'', JStr ''voice.mp4''),
                      (''model'', JStr ''whisper-large-v3''),
                      (''timestamp_granularities'', JUndefined)]
          \<and> metadata.model (transcription_result.metadata r) = ''whisper-large-v3'')
   \<and> ''audios/a.mp3'' \<in> files (snd (translateFile env_echo s_audio ''voice.opus'' no_options))
   \<and> \<not> needsConversion ''audios/a.mp3''
   \<and> (\<exists>r'. fst (transcribeFile env_echo
                    (snd (translateFile env_echo s_audio ''voice.opus'' no_options))
                    ''audios/a.mp3'' no_options) = Inr r'
          \<and> transcription r'
              = JObj [(''file'', JStr ''audios/a.mp3''),
                      (''model'', JStr ''whisper-large-v3-turbo''),
                      (''timestamp_granularities'', JArr [JStr ''segment''])]
          \<and> metadata.model (transcription_result.metadata r') = ''whisper-large-v3-turbo'')"
proof -
  have h: "this_model s_audio = ''whisper-large-v3-turbo''"
    by (simp add: s_audio_def)
  note inst = translateFile_substitutes_precise_model_for_the_call_only
               [OF h, of "''audios/a.mp3''" no_options env_ok "''audios/a.mp3''"]
  note echoed = translateFile_substitutes_precise_model_for_the_call_only
               [OF h, of "''audios/a.mp3''" no_options env_echo "''voice.opus''"]
  have "\<not> isl (fst (translateFile env_ok s_audio ''audios/a.mp3'' no_options))"
    by code_simp
  then obtain r where r: "fst (translateFile env_ok s_audio ''audios/a.mp3'' no_options) = Inr r"
    using not_isl_Inr by blast
  have "\<not> isl (fst (transcribeFile env_ok
                    (snd (translateFile env_ok s_audio ''audios/a.mp3'' no_options))
                    ''voice.opus'' no_options))"
    by code_simp
  then obtain r' where r': "fst (transcribeFile env_ok
                    (snd (translateFile env_ok s_audio ''audios/a.mp3'' no_options))
                    ''voice.opus'' no_options) = Inr r'"
    using not_isl_Inr by blast
  have f1: "''voice.opus'' \<in> files s_audio" by (simp add: s_audio_def)
  have n1: "needsConversion ''voice.opus''" by code_simp
  have c1: "ffmpeg env_echo s_audio
              (ffmpeg_job ''voice.opus'' (convertOpusToMp4_outputPath ''voice.opus'')) = FfmpegEnd"
    by (simp add: echo_answers env_ok_def)
  have f2: "''audios/a.mp3'' \<in> files (snd (translateFile env_echo s_audio ''voice.opus'' no_options))"
    using translateFile_files [of s_audio env_echo "''voice.opus''" no_options]
    by (auto simp: s_audio_def)
  have n2: "\<not> needsConversion ''audios/a.mp3''" by code_simp
  have e1: "echo (translationParams (this_model s_audio)
                    (convertOpusToMp4_outputPath ''voice.opus'') no_options)
              = JObj [(''file'', JStr ''voice.mp4''),
                      (''model'', JStr ''whisper-large-v3''),
                      (''timestamp_granularities'', JUndefined)]"
    by code_simp
  have e2: "echo (transcriptionParams ''whisper-large-v3-turbo'' ''audios/a.mp3'' no_options)
              = JObj [(''file'', JStr ''audios/a.mp3''),
                      (''model'', JStr ''whisper-large-v3-turbo''),
                      (''timestamp_granularities'', JArr [JStr ''segment''])]"
    by code_simp
  from echoed have after: "this_model (snd (translateFile env_echo s_audio ''voice.opus'' no_options))
                             = ''whisper-large-v3-turbo''"
    by blast
  from echoed f1 n1 c1 have t:
    "\<exists>r. fst (translateFile env_echo s_audio ''voice.opus'' no_options) = Inr r
          \<and> translation r
              = JObj [(''file'', JStr ''voice.mp4''),
                      (''model'', JStr ''whisper-large-v3''),
                      (''timestamp_granularities'', JUndefined)]
          \<and> metadata.model (transcription_result.metadata r) = ''whisper-large-v3''"
    by (auto simp: echo_answers e1)
  from echoed have
    "''audios/a.mp3'' \<in> files (snd (translateFile env_echo s_audio ''voice.opus'' no_options))
     \<and> (needsConversion ''audios/a.mp3'' \<longrightarrow>
           ffmpeg env_echo (snd (translateFile env_echo s_audio ''voice.opus'' no_options))
             (ffmpeg_job ''audios/a.mp3'' (convertOpusToMp4_outputPath ''audios/a.mp3''))
           = FfmpegEnd)
     \<longrightarrow>
       (case transcriptions_create env_echo
                (snd (processAudioFile env_echo
                        (snd (translateFile env_echo s_audio ''voice.opus'' no_options))
                        ''audios/a.mp3''))
                (transcriptionParams
                   (this_model (snd (translateFile env_echo s_audio ''voice.opus'' no_options)))
                   (if needsConversion ''audios/a.mp3''
                    then convertOpusToMp4_outputPath ''audios/a.mp3'' else ''audios/a.mp3'')
                   no_options) of
           Inl msg \<Rightarrow>
             transcribeFile env_echo
                 (snd (translateFile env_echo s_audio ''voice.opus'' no_options))
                 ''audios/a.mp3'' no_options
               = (Inl (''Error al transcribir el archivo: '' @ msg),
                  snd (processAudioFile env_echo
                         (snd (translateFile env_echo s_audio ''voice.opus'' no_options))
                         ''audios/a.mp3''))
         | Inr payload \<Rightarrow>
             (\<exists>r'. transcribeFile env_echo
                       (snd (translateFile env_echo s_audio ''voice.opus'' no_options))
                       ''audios/a.mp3'' no_options
                     = (Inr r',
                        (snd (processAudioFile env_echo
                                (snd (translateFile env_echo s_audio ''voice.opus'' no_options))
                                ''audios/a.mp3''))
                          \<lparr>clock := Suc (clock (snd (processAudioFile env_echo
                                   (snd (translateFile env_echo s_audio ''voice.opus'' no_options))
                                   ''audios/a.mp3'')))\<rparr>)
                 \<and> transcription r' = payload
                 \<and> metadata.model (transcription_result.metadata r')
                     = ''whisper-large-v3-turbo''))"
    by blast
  with f2 n2 after have t':
    "\<exists>r'. fst (transcribeFile env_echo
                    (snd (translateFile env_echo s_audio ''voice.opus'' no_options))
                    ''audios/a.mp3'' no_options) = Inr r'
          \<and> transcription r'
              = JObj [(''file'', JStr ''audios/a.mp3''),
                      (''model'', JStr ''whisper-large-v3-turbo''),
                      (''timestamp_granularities'', JArr [JStr ''segment''])]
          \<and> metadata.model (transcription_result.metadata r') = ''whisper-large-v3-turbo''"
    by (auto simp: echo_answers e2)
  from h inst r r' have
    "(\<exists>r. fst (translateFile env_ok s_audio ''audios/a.mp3'' no_options) = Inr r
          \<and> metadata.model (transcription_result.metadata r) = ''whisper-large-v3'')
     \<and> this_model (snd (translateFile env_ok s_audio ''audios/a.mp3'' no_options))
        = ''whisper-large-v3-turbo''
     \<and> (\<exists>r'. fst (transcribeFile env_ok
                    (snd (translateFile env_ok s_audio ''audios/a.mp3'' no_options))
                    ''voice.opus'' no_options) = Inr r'
          \<and> metadata.model (transcription_result.metadata r') = ''whisper-large-v3-turbo'')"
    by blast
  with h f1 n1 c1 t f2 n2 t' show ?thesis by blast
qed

subsection \<open>\<^verbatim>\<open>processAudioFile\<close> returns, whatever happens\<close>

text \<open>
  Claim C6. For every input path, \<^verbatim>\<open>processAudioFile\<close> never raises: it returns a result
  object. When the conversion is needed and \<^verbatim>\<open>convertOpusToMp4\<close> throws, the object has
  \<^verbatim>\<open>success = false\<close> and the message of the error in \<^verbatim>\<open>error\<close>; otherwise it has
  \<^verbatim>\<open>success = true\<close> and no \<^verbatim>\<open>error\<close>.
\<close>

theorem processAudioFile_never_raises:
  "\<exists>r. fst (processAudioFile e s p) = Inr r
       \<and> originalPath r = p
       \<and> (if needsConversion p
           then (case fst (convertOpusToMp4 e s p) of
                   Inl msg \<Rightarrow> \<not> conversion_result.success r
                              \<and> conversion_result.error r = Some msg
                              \<and> \<not> conversion_result.wasConverted r
                 | Inr converted \<Rightarrow> conversion_result.success r
                              \<and> conversion_result.error r = None
                              \<and> processedPath r = Some converted)
           else conversion_result.success r \<and> conversion_result.error r = None)"
  by (cases "convertOpusToMp4 e s p"; cases "fst (convertOpusToMp4 e s p)")
     (auto simp: processAudioFile_def processAudioFile_try_def)

subsection \<open>Timestamp granularities in the request\<close>





subsection \<open>No file is deleted\<close>

text \<open>
  Claim C8. \<^verbatim>\<open>processAudioFile\<close>, \<^verbatim>\<open>transcribeFile\<close> and \<^verbatim>\<open>translateFile\<close> remove no file:
  every path that exists before the call exists after it, whether the call returns or
  throws, and so does the file the caller supplied. After a successful conversion the
  derived file is another path than the original, and both exist.
\<close>

theorem pipeline_never_deletes_a_file:
  "files s \<subseteq> files (snd (processAudioFile e s p))
   \<and> files s \<subseteq> files (snd (transcribeFile e s p opts))
   \<and> files s \<subseteq> files (snd (translateFile e s p opts))
   \<and> (p \<in> files s \<longrightarrow>
         p \<in> files (snd (processAudioFile e s p))
         \<and> p \<in> files (snd (transcribeFile e s p opts))
         \<and> p \<in> files (snd (translateFile e s p opts)))
   \<and> (\<forall>r. fst (processAudioFile e s p) = Inr r \<and> conversion_result.success r
            \<and> conversion_result.wasConverted r \<longrightarrow>
          processedPath r = Some (convertOpusToMp4_outputPath p)
          \<and> convertOpusToMp4_outputPath p \<noteq> p
          \<and> p \<in> files (snd (processAudioFile e s p))
          \<and> convertOpusToMp4_outputPath p \<in> files (snd (processAudioFile e s p)))"
proof -
  have mono: "files s \<subseteq> files (snd (processAudioFile e s p))"
      "files s \<subseteq> files (snd (transcribeFile e s p opts))"
      "files s \<subseteq> files (snd (translateFile e s p opts))"
    by (rule processAudioFile_files transcribeFile_files translateFile_files)+
  have conv: "processedPath r = Some (convertOpusToMp4_outputPath p)
          \<and> convertOpusToMp4_outputPath p \<noteq> p
          \<and> p \<in> files (snd (processAudioFile e s p))
          \<and> convertOpusToMp4_outputPath p \<in> files (snd (processAudioFile e s p))"
    if "fst (processAudioFile e s p) = Inr r" and "conversion_result.success r"
      and "conversion_result.wasConverted r" for r
  proof -
    from processAudioFile_success [OF that(1,2)] that(3)
    have n: "needsConversion p"
      and path: "processedPath r = Some (convertOpusToMp4_outputPath p)"
      and orig: "p \<in> files s"
      and after: "snd (processAudioFile e s p)
                 = s\<lparr>files := insert (convertOpusToMp4_outputPath p) (files s)\<rparr>"
      by simp_all
    show ?thesis using path orig after outputPath_differs [OF n] by simp
  qed
  from mono conv show ?thesis by blast
qed

text \<open>
  Witness for claim C8, on \<^verbatim>\<open>voice.opus\<close>: the conversion succeeds, and \<^verbatim>\<open>voice.opus\<close> and \<^verbatim>\<open>voice.mp4\<close> both exist
  after it.
\<close>

theorem pipeline_never_deletes_witness:
  "''voice.opus'' \<in> files s_audio
   \<and> (\<exists>r. fst (processAudioFile env_ok s_audio ''voice.opus'') = Inr r
          \<and> conversion_result.success r \<and> conversion_result.wasConverted r
          \<and> processedPath r = Some ''voice.mp4'')
   \<and> ''voice.opus'' \<in> files (snd (processAudioFile env_ok s_audio ''voice.opus''))
   \<and> ''voice.mp4'' \<in> files (snd (processAudioFile env_ok s_audio ''voice.opus''))
   \<and> ''voice.opus'' \<in> files (snd (transcribeFile env_ok s_audio ''voice.opus'' no_options))
   \<and> ''voice.opus'' \<in> files (snd (translateFile env_ok s_audio ''voice.opus'' no_options))"
proof -
  have h: "''voice.opus'' \<in> files s_audio" by (simp add: s_audio_def)
  have out: "convertOpusToMp4_outputPath ''voice.opus'' = ''voice.mp4''" by code_simp
  have ok: "\<not> isl (fst (processAudioFile env_ok s_audio ''voice.opus''))"
    and su: "conversion_result.success (projr (fst (processAudioFile env_ok s_audio ''voice.opus'')))"
    and co: "conversion_result.wasConverted
               (projr (fst (processAudioFile env_ok s_audio ''voice.opus'')))"
    by code_simp+
  from ok obtain r where r: "fst (processAudioFile env_ok s_audio ''voice.opus'') = Inr r"
    using not_isl_Inr by blast
  have r2: "conversion_result.success r" "conversion_result.wasConverted r"
    using su co r by simp_all
  note inst = pipeline_never_deletes_a_file [of s_audio env_ok "''voice.opus''" no_options]
  from inst h r r2 show ?thesis unfolding out by blast
qed

subsection \<open>A transcript that cannot be saved\<close>

text \<open>
  Claim C9. In \<^verbatim>\<open>processAudioDirectory\<close> with an output directory, when the transcription
  of a file returns and saving its transcript throws, the report has two entries for
  that file, one after the other: the result that was already pushed, and a failure
  record with the message of the error and the name of the file. Every other file
  contributes at least one entry, so the report is longer than the list of audio files.
\<close>

theorem save_failure_leaves_two_entries_for_one_file:
  assumes "fs_readdir e s d = Inr listing"
    and "k < length (audioFiles_of listing)"
    and "out \<noteq> []"
    and "transcribeFile e (state_before e d opts (Some out) s (audioFiles_of listing) k)
           (path_join [d, audioFiles_of listing ! k]) opts = (Inr r, s1)"
    and "saveTranscription e s1 r out = (Inl msg, s2)"
  shows "\<exists>report before after.
           fst (processAudioDirectory e s d opts (Some out)) = Inr report
           \<and> report = before
                @ [ResultEntry r,
                   failure_entry msg (audioFiles_of listing ! k)
                     (path_join [d, audioFiles_of listing ! k]) (toISOString e (clock s2))]
                @ after
           \<and> k \<le> length before
           \<and> length (audioFiles_of listing) - Suc k \<le> length after
           \<and> length (audioFiles_of listing) < length report"
proof -
  define fs where "fs = audioFiles_of listing"
  define f where "f = iteration_entries e d opts (Some out) s fs"
  define before where "before = concat (map f [0..<k])"
  define after where "after = concat (map f [Suc k..<length fs])"
  define report where "report = concat (map f [0..<length fs])"
  have k: "k < length fs" using assms(2) by (simp add: fs_def)
  have two: "f k = [ResultEntry r,
                   failure_entry msg (fs ! k) (path_join [d, fs ! k]) (toISOString e (clock s2))]"
    unfolding f_def using assms(3,4,5)
    by (intro iteration_entries_save_throws) (simp_all add: fs_def)
  have rep: "fst (processAudioDirectory e s d opts (Some out)) = Inr report"
    using processAudioDirectory_report [OF assms(1), of opts "Some out"]
    by (simp add: report_def f_def fs_def)
  have split: "report = before @ f k @ after"
    unfolding report_def before_def after_def by (subst upt_split_at [OF k]) simp
  have one: "1 \<le> length (f i)" for i
    unfolding f_def by (rule iteration_entries_length)
  have lb: "length [0..<k] \<le> length before"
    unfolding before_def by (rule length_concat_ge) (rule one)
  have la: "length [Suc k..<length fs] \<le> length after"
    unfolding after_def by (rule length_concat_ge) (rule one)
  have "length fs < length report"
    using lb la k by (simp add: split two)
  then show ?thesis
    using rep split two lb la by (intro exI [of _ report] exI [of _ before] exI [of _ after])
                                  (simp add: fs_def)
qed

text \<open>
  Witness for claim C9: the directory \<^verbatim>\<open>audios\<close> lists \<^verbatim>\<open>a.mp3\<close>, \<^verbatim>\<open>notes.txt\<close> and \<^verbatim>\<open>b.mp3\<close>;
  the transcript of \<^verbatim>\<open>a.mp3\<close> cannot be written. The report has more than two entries for
  the two audio files, with the result of \<^verbatim>\<open>a.mp3\<close> followed by its failure record.
\<close>

theorem save_failure_leaves_two_entries_witness:
  "fs_readdir env_write_fails s_audio ''audios'' = Inr [''a.mp3'', ''notes.txt'', ''b.mp3'']
   \<and> audioFiles_of [''a.mp3'', ''notes.txt'', ''b.mp3''] = [''a.mp3'', ''b.mp3'']
   \<and> \<not> isl (fst (transcribeFile env_write_fails s_audio ''audios/a.mp3'' no_options))
   \<and> isl (fst (saveTranscription env_write_fails
                  (snd (transcribeFile env_write_fails s_audio ''audios/a.mp3'' no_options))
                  (projr (fst (transcribeFile env_write_fails s_audio ''audios/a.mp3'' no_options)))
                  ''texts''))
   \<and> (\<exists>report before after fr.
         fst (processAudioDirectory env_write_fails s_audio ''audios'' no_options (Some ''texts''))
           = Inr report
         \<and> report = before
             @ [ResultEntry
                  (projr (fst (transcribeFile env_write_fails s_audio ''audios/a.mp3'' no_options))),
                FailureEntry fr]
             @ after
         \<and> failure_metadata.fileName (failure_record.metadata fr) = ''a.mp3''
         \<and> 2 < length report)"
proof -
  define X where "X = transcribeFile env_write_fails s_audio ''audios/a.mp3'' no_options"
  define Y where "Y = saveTranscription env_write_fails (snd X) (projr (fst X)) ''texts''"
  define fs where "fs = audioFiles_of [''a.mp3'', ''notes.txt'', ''b.mp3'']"
  have h1: "fs_readdir env_write_fails s_audio ''audios'' = Inr [''a.mp3'', ''notes.txt'', ''b.mp3'']"
    by (simp add: env_write_fails_def env_ok_def)
  have fs: "fs = [''a.mp3'', ''b.mp3'']"
    unfolding fs_def by code_simp
  have h2: "0 < length fs" by (simp add: fs)
  have h3: "''texts'' \<noteq> []" by simp
  have j: "path_join [''audios'', fs ! 0] = ''audios/a.mp3''" unfolding fs by code_simp
  have x: "\<not> isl (fst X)" unfolding X_def by code_simp
  have y: "isl (fst Y)" unfolding Y_def X_def by code_simp
  have h4: "transcribeFile env_write_fails
              (state_before env_write_fails ''audios'' no_options (Some ''texts'') s_audio fs 0)
              (path_join [''audios'', fs ! 0]) no_options = (Inr (projr (fst X)), snd X)"
    unfolding state_before_0 j X_def [symmetric] by (rule pair_collapse_Inr [OF x])
  have h5: "saveTranscription env_write_fails (snd X) (projr (fst X)) ''texts''
              = (Inl (projl (fst Y)), snd Y)"
    unfolding Y_def [symmetric] by (rule pair_collapse_Inl [OF y])
  note inst = save_failure_leaves_two_entries_for_one_file
                [OF h1 h2 [unfolded fs_def] h3 h4 [unfolded fs_def] h5]
  then obtain report before after where
    rep: "fst (processAudioDirectory env_write_fails s_audio ''audios'' no_options (Some ''texts''))
       = Inr report"
    and shape: "report = before
       @ [ResultEntry (projr (fst X)),
          failure_entry (projl (fst Y)) (fs ! 0) (path_join [''audios'', fs ! 0])
            (toISOString env_write_fails (clock (snd Y)))]
       @ after"
    and len: "length fs < length report"
    unfolding fs_def by blast
  define fr where "fr = \<lparr> failure_record.success = False,
                    failure_record.error = projl (fst Y),
                    failure_record.metadata =
                      \<lparr> failure_metadata.fileName = fs ! 0,
                        filePath = path_join [''audios'', fs ! 0],
                        failure_metadata.timestamp =
                          toISOString env_write_fails (clock (snd Y)) \<rparr> \<rparr>"
  have shape': "report = before @ [ResultEntry (projr (fst X)), FailureEntry fr] @ after"
    using shape by (simp only: failure_entry_def fr_def)
  have name: "failure_metadata.fileName (failure_record.metadata fr) = ''a.mp3''"
    by (simp add: fr_def fs)
  have len': "2 < length report" using len by (simp add: fs)
  have ex: "\<exists>report before after fr.
         fst (processAudioDirectory env_write_fails s_audio ''audios'' no_options (Some ''texts''))
           = Inr report
         \<and> report = before @ [ResultEntry (projr (fst X)), FailureEntry fr] @ after
         \<and> failure_metadata.fileName (failure_record.metadata fr) = ''a.mp3''
         \<and> 2 < length report"
    using rep shape' name len' by blast
  show ?thesis
    using h1 fs x y ex unfolding X_def Y_def fs_def by (intro conjI)
qed

subsection \<open>Upper-case extensions\<close>

text \<open>
  Claim C10. \<^verbatim>\<open>needsConversion\<close> lowers the extension before it compares it with
  \<^verbatim>\<open>.opus\<close>, while the output path is derived by stripping the literal suffix \<^verbatim>\<open>.opus\<close>.
  So for a path whose extension is \<^verbatim>\<open>.opus\<close> in another case, \<^verbatim>\<open>needsConversion\<close> is true,
  nothing is stripped, and the base name of the output path is the whole base name of
  the input followed by \<^verbatim>\<open>.mp4\<close>; for the literal extension the suffix is replaced.
\<close>

theorem needsConversion_ignores_case_but_output_path_keeps_extension:
  "needsConversion p = (toLowerCase (path_extname p) = ''.opus'')
   \<and> (toLowerCase (path_extname p) = ''.opus'' \<and> path_extname p \<noteq> ''.opus''
        \<longrightarrow> needsConversion p
            \<and> path_basename_ext p ''.opus'' = path_basename p
            \<and> path_basename (convertOpusToMp4_outputPath p) = path_basename p @ ''.mp4'')
   \<and> (path_extname p = ''.opus''
        \<longrightarrow> path_basename p = path_basename_ext p ''.opus'' @ ''.opus''
            \<and> path_basename (convertOpusToMp4_outputPath p)
                = path_basename_ext p ''.opus'' @ ''.mp4'')"
proof -
  have def: "needsConversion p = (toLowerCase (path_extname p) = ''.opus'')"
    by (simp add: needsConversion_def)
  have upper: "needsConversion p
            \<and> path_basename_ext p ''.opus'' = path_basename p
            \<and> path_basename (convertOpusToMp4_outputPath p) = path_basename p @ ''.mp4''"
    if "toLowerCase (path_extname p) = ''.opus''" and "path_extname p \<noteq> ''.opus''"
  proof -
    have n: "needsConversion p" using that(1) def by simp
    have "path_basename_ext p ''.opus'' = lastComponent p"
      using n that(2) by (rule path_basename_ext_other)
    then show ?thesis using n outputPath_basename [OF n] by (simp add: path_basename_def)
  qed
  have lower: "path_basename p = path_basename_ext p ''.opus'' @ ''.opus''
            \<and> path_basename (convertOpusToMp4_outputPath p)
                = path_basename_ext p ''.opus'' @ ''.mp4''"
    if "path_extname p = ''.opus''"
  proof -
    have n: "needsConversion p" using that by (simp add: def toLowerCase_def toLowerChar_def)
    show ?thesis
      using path_basename_ext_exact [OF that] outputPath_basename [OF n]
      by (simp add: path_basename_def)
  qed
  from def upper lower show ?thesis by blast
qed

text \<open>
  Witness for claim C10: for \<^verbatim>\<open>voice.OPUS\<close> the conversion is needed and the output path is \<^verbatim>\<open>voice.OPUS.mp4\<close>;
  for \<^verbatim>\<open>voice.opus\<close> it is \<^verbatim>\<open>voice.mp4\<close>.
\<close>

theorem needsConversion_ignores_case_witness:
  "toLowerCase (path_extname ''voice.OPUS'') = ''.opus'' \<and> path_extname ''voice.OPUS'' \<noteq> ''.opus''
   \<and> needsConversion ''voice.OPUS''
   \<and> path_basename_ext ''voice.OPUS'' ''.opus'' = ''voice.OPUS''
   \<and> path_basename (convertOpusToMp4_outputPath ''voice.OPUS'') = ''voice.OPUS.mp4''
   \<and> convertOpusToMp4_outputPath ''voice.OPUS'' = ''voice.OPUS.mp4''
   \<and> path_extname ''voice.opus'' = ''.opus''
   \<and> path_basename (convertOpusToMp4_outputPath ''voice.opus'') = ''voice.mp4''"
proof -
  have h1: "toLowerCase (path_extname ''voice.OPUS'') = ''.opus''" by code_simp
  have h2: "path_extname ''voice.OPUS'' \<noteq> ''.opus''" by code_simp
  have h3: "path_extname ''voice.opus'' = ''.opus''" by code_simp
  have b1: "path_basename ''voice.OPUS'' = ''voice.OPUS''" by code_simp
  have b2: "path_basename_ext ''voice.opus'' ''.opus'' = ''voice''" by code_simp
  have out: "convertOpusToMp4_outputPath ''voice.OPUS'' = ''voice.OPUS.mp4''" by code_simp
  note upper = needsConversion_ignores_case_but_output_path_keeps_extension [of "''voice.OPUS''"]
  note lower = needsConversion_ignores_case_but_output_path_keeps_extension [of "''voice.opus''"]
  from upper h1 h2 b1 have
    "needsConversion ''voice.OPUS''
     \<and> path_basename_ext ''voice.OPUS'' ''.opus'' = ''voice.OPUS''
     \<and> path_basename (convertOpusToMp4_outputPath ''voice.OPUS'') = ''voice.OPUS.mp4''"
    by simp
  moreover from lower h3 b2 have
    "path_basename (convertOpusToMp4_outputPath ''voice.opus'') = ''voice.mp4''"
    by simp
  ultimately show ?thesis using h1 h2 h3 out by blast
qed

end
